theory Spec2Isabelle
  imports Main "HOL-Library.Sublist"
begin

section \<open>The \<open>run\<close> command of the Acrobi CLI\<close>

text \<open>
  This theory embeds \<open>runCommand\<close> of \<open>src/dist/index.js\<close> (lines 611 to 856) and the
  class \<open>LocalExecutorAgent\<close> it declares. The command talks to collaborators that are not
  part of the repository: the module loader (\<open>import\<close>), the Cortex runtime, the dynamic
  tool loader, the tools, the console and the process. Their behaviour is a parameter of the
  model (the record \<open>world\<close>); what the command does with them is written out as a trace of
  events and a completion.

  Strings are lists of code units in the range 0 to 255. Console texts are given without
  colour codes and without the pictographs that open some of them.
\<close>

subsection \<open>JavaScript values\<close>

text \<open>
  A thrown value: an \<open>Error\<close> or a \<open>TypeError\<close> with its message, or an error of
  another class with its name and its message.
\<close>

datatype js_error = Error string | TypeError string | NamedError string string

fun error_name :: "js_error \<Rightarrow> string" where
  "error_name (Error m) = ''Error''"
| "error_name (TypeError m) = ''TypeError''"
| "error_name (NamedError n m) = n"

fun error_message :: "js_error \<Rightarrow> string" where
  "error_message (Error m) = m"
| "error_message (TypeError m) = m"
| "error_message (NamedError n m) = m"

text \<open>
  \<open>`${error}`\<close> is \<open>Error.prototype.toString\<close>: the message alone when the name is
  empty, the name alone when the message is empty, and otherwise the name, a colon, a
  space and the message.
\<close>

definition error_toString :: "js_error \<Rightarrow> string" where
  "error_toString e =
     (if error_name e = [] then error_message e
      else if error_message e = [] then error_name e
      else error_name e @ '': '' @ error_message e)"

text \<open>A value that may be \<open>undefined\<close> is an option; \<open>`${v}`\<close> prints \<open>undefined\<close> then.\<close>

fun js_string :: "string option \<Rightarrow> string" where
  "js_string None = ''undefined''"
| "js_string (Some s) = s"

text \<open>Truthiness of a string that may be \<open>undefined\<close>: defined and not empty.\<close>

fun truthy :: "string option \<Rightarrow> bool" where
  "truthy None = False"
| "truthy (Some s) = (s \<noteq> [])"

definition dquote :: char where
  "dquote = CHR 0x22"

definition newline :: char where
  "newline = CHR 0x0A"

definition lower_letters :: string where
  "lower_letters = ''abcdefghijklmnopqrstuvwxyz''"

definition upper_letters :: string where
  "upper_letters = ''ABCDEFGHIJKLMNOPQRSTUVWXYZ''"

text \<open>
  \<open>String.prototype.toLowerCase\<close>. The command searches the result for three ASCII words
  only, and no code unit below 256 other than an ASCII capital becomes an ASCII letter, so
  the other code units are kept as they are.
\<close>

definition lower_char :: "char \<Rightarrow> char" where
  "lower_char c =
     (case map_of (zip upper_letters lower_letters) c of Some l \<Rightarrow> l | None \<Rightarrow> c)"

definition toLowerCase :: "string \<Rightarrow> string" where
  "toLowerCase s = map lower_char s"

text \<open>
  \<open>toUpperCase\<close> is applied to the engine name only, after validation: ASCII letters.
\<close>

definition upper_char :: "char \<Rightarrow> char" where
  "upper_char c =
     (case map_of (zip lower_letters upper_letters) c of Some u \<Rightarrow> u | None \<Rightarrow> c)"

definition toUpperCase :: "string \<Rightarrow> string" where
  "toUpperCase s = map upper_char s"

text \<open>\<open>s.includes(sub)\<close> and \<open>s.startsWith(p)\<close>.\<close>

fun includes_str :: "string \<Rightarrow> string \<Rightarrow> bool" where
  "includes_str [] sub = (sub = [])"
| "includes_str (c # cs) sub = (prefix sub (c # cs) \<or> includes_str cs sub)"

definition startsWith :: "string \<Rightarrow> string \<Rightarrow> bool" where
  "startsWith s p = prefix p s"

text \<open>\<open>names.join(', ')\<close>.\<close>

fun join_comma :: "string list \<Rightarrow> string" where
  "join_comma [] = []"
| "join_comma [x] = x"
| "join_comma (x # y # ys) = x @ '', '' @ join_comma (y # ys)"

subsection \<open>The data of a run\<close>

text \<open>What a tool's \<open>definition.execute\<close> answers: \<open>{ success, data, error }\<close>.\<close>

record tool_result =
  tr_success :: bool
  tr_data :: "string option"
  tr_error :: "string option"

text \<open>The two requests the legacy agent sends to the browser tool.\<close>

datatype action = Goto string | Title

text \<open>
  A tool of the registry. \<open>execute\<close> is what \<open>definition.execute\<close> does with a request:
  it throws or answers. \<open>cleanup\<close> is the optional hook \<open>definition.cleanup\<close>.
\<close>

record tool_definition =
  description :: string
  code :: "string option"
  input_schema_description :: "string option"
  execute :: "action \<Rightarrow> js_error + tool_result"
  cleanup :: "(js_error + unit) option"

text \<open>
  The registry is a JavaScript \<open>Map\<close>: an association list in insertion order;
  \<open>loadedTools.get(name)\<close> is \<open>map_of\<close>.
\<close>

type_synonym registry = "(string \<times> tool_definition) list"

text \<open>
  A tool as the native engine hands it to the session manager. The fourth field of the
  source, the bound \<open>execute\<close> function, is not data and is left out.
\<close>

record tool_descriptor =
  td_name :: string
  td_description :: string
  td_code :: string

record session_options =
  so_tools :: "tool_descriptor list"
  so_projectName :: string
  so_environment :: string
  so_workingDirectory :: string
  so_engine :: string

text \<open>The answer of \<open>sendMessage\<close>: \<open>{ content, toolUse? }\<close>, the tools by name.\<close>

record native_response =
  content :: "string option"
  toolUse :: "string list option"

record ExecutionResult =
  success :: bool
  message :: "string option"
  title :: "string option"
  response :: "string option"
  error :: "string option"
  note_text :: "string option"

subsection \<open>The collaborators\<close>

text \<open>
  The session manager class of the runtime: what its constructor and its three methods do.
  The system directive passed to \<open>sendMessage\<close> is a constant of the source.
\<close>

record manager_class =
  construct :: "js_error + unit"
  createSession :: "session_options \<Rightarrow> js_error + string"
  sendMessage :: "string \<Rightarrow> string \<Rightarrow> js_error + native_response"
  deactivateSession :: "string \<Rightarrow> js_error + unit"

text \<open>
  The agent base class: its constructor (called through \<open>super\<close>) and its \<open>cleanup\<close>
  method. Its \<open>log\<close> method only records a line.
\<close>

record agent_class =
  agent_construct :: "js_error + unit"
  agent_cleanup :: "js_error + unit"

text \<open>A runtime module; an export it does not have is \<open>undefined\<close>.\<close>

record cortex_module =
  Agent :: "agent_class option"
  Session :: "(js_error + unit) option"
  NativeSessionManager :: "manager_class option"
  Orchestrator :: "unit option"

text \<open>
  The tool loader module; \<open>initializeTools\<close> is what the function does when called with
  the working directory.
\<close>

record loader_module =
  initializeTools :: "(js_error + registry) option"

record world =
  import_local_cortex :: "js_error + cortex_module"
  import_package_cortex :: "js_error + cortex_module"
  import_local_loader :: "js_error + loader_module"
  import_package_loader :: "js_error + loader_module"
  cwd :: string
  basename_cwd :: string
  duration :: string

record options =
  engine :: "string option"
  verbose :: bool

subsection \<open>Events, completions and their composition\<close>

datatype event =
    ConsoleLog string
  | ConsoleError string
  | ConsoleErrorStack js_error
  | ConsoleWarn string
  | ImportLocalCortex
  | ImportPackageCortex
  | ImportLocalLoader
  | ImportPackageLoader
  | InitializeTools string
  | NewNativeSessionManager
  | CreateSession session_options "js_error + string"
  | SendMessage string string "js_error + native_response"
  | DeactivateSession string "js_error + unit"
  | NewSession
  | NewAgent
  | AgentLog string
  | ToolExecute action "js_error + tool_result"
  | ToolCleanup
  | Delay nat
  | AgentCleanup
  | ProcessExit nat

text \<open>
  A piece of code ends normally with a value, throws, or ends the process:
  \<open>process.exit\<close> does not return, so neither a \<open>catch\<close> nor a \<open>finally\<close> runs after it.
\<close>

datatype 'a completion = Normal 'a | Throw js_error | Exit nat

type_synonym 'a proc = "event list \<times> 'a completion"

definition ret :: "'a \<Rightarrow> 'a proc" where
  "ret x = ([], Normal x)"

definition throw :: "js_error \<Rightarrow> 'a proc" where
  "throw e = ([], Throw e)"

definition emit :: "event \<Rightarrow> unit proc" where
  "emit ev = ([ev], Normal ())"

text \<open>An external call: the event, and what the collaborator answers.\<close>

definition call :: "event \<Rightarrow> js_error + 'a \<Rightarrow> 'a proc" where
  "call ev r = ([ev], case r of Inl e \<Rightarrow> Throw e | Inr x \<Rightarrow> Normal x)"

definition seq :: "'a proc \<Rightarrow> ('a \<Rightarrow> 'b proc) \<Rightarrow> 'b proc" where
  "seq p f =
     (case snd p of
        Normal x \<Rightarrow> (fst p @ fst (f x), snd (f x))
      | Throw e \<Rightarrow> (fst p, Throw e)
      | Exit n \<Rightarrow> (fst p, Exit n))"

definition try_catch :: "'a proc \<Rightarrow> (js_error \<Rightarrow> 'a proc) \<Rightarrow> 'a proc" where
  "try_catch p h =
     (case snd p of
        Normal x \<Rightarrow> p
      | Throw e \<Rightarrow> (fst p @ fst (h e), snd (h e))
      | Exit n \<Rightarrow> p)"

definition try_finally :: "'a proc \<Rightarrow> unit proc \<Rightarrow> 'a proc" where
  "try_finally p fin =
     (case snd p of
        Normal x \<Rightarrow>
          (fst p @ fst fin,
           case snd fin of Normal u \<Rightarrow> Normal x | Throw e \<Rightarrow> Throw e | Exit n \<Rightarrow> Exit n)
      | Throw e \<Rightarrow>
          (fst p @ fst fin,
           case snd fin of Normal u \<Rightarrow> Throw e | Throw e' \<Rightarrow> Throw e' | Exit n \<Rightarrow> Exit n)
      | Exit n \<Rightarrow> p)"

definition console_log :: "string \<Rightarrow> unit proc" where
  "console_log s = emit (ConsoleLog s)"

definition console_error :: "string \<Rightarrow> unit proc" where
  "console_error s = emit (ConsoleError s)"

definition console_warn :: "string \<Rightarrow> unit proc" where
  "console_warn s = emit (ConsoleWarn s)"

definition process_exit :: "nat \<Rightarrow> 'a proc" where
  "process_exit n = ([ProcessExit n], Exit n)"

definition agent_log :: "string \<Rightarrow> unit proc" where
  "agent_log s = emit (AgentLog s)"

text \<open>The exit code of the process: 0 when the command returns.\<close>

fun exit_code :: "unit completion \<Rightarrow> nat" where
  "exit_code (Normal u) = 0"
| "exit_code (Throw e) = 1"
| "exit_code (Exit n) = n"

subsection \<open>The pattern that extracts the target\<close>

text \<open>
  The source matches the task against
  \<^verbatim>\<open>/(?:title of|visit|go to|navigate to)\s+([^\s]+)/i\<close>.
  The class \<open>\s\<close> holds, among the code units below 256, the tab, the line feed, the
  vertical tab, the form feed, the carriage return, the space and the no-break space.
\<close>

definition is_space :: "char \<Rightarrow> bool" where
  "is_space c =
     (c \<in> set [CHR 0x09, CHR 0x0A, CHR 0x0B, CHR 0x0C, CHR 0x0D, CHR 0x20, CHR 0xA0])"

text \<open>
  With the flag \<open>i\<close> two code units match when their canonical forms are equal. The
  canonical form is the upper case, and a code unit outside ASCII never has an ASCII
  canonical form, so against the ASCII letters of the pattern only ASCII letters count.
\<close>

definition canonicalize :: "char \<Rightarrow> char" where
  "canonicalize c =
     (case map_of (zip lower_letters upper_letters) c of Some u \<Rightarrow> u | None \<Rightarrow> c)"

text \<open>The literal \<open>p\<close> matches at the start of \<open>s\<close>, ignoring case.\<close>

definition match_literal :: "string \<Rightarrow> string \<Rightarrow> bool" where
  "match_literal p s =
     (length p \<le> length s \<and> map canonicalize (take (length p) s) = map canonicalize p)"

definition phrases :: "string list" where
  "phrases = [''title of'', ''visit'', ''go to'', ''navigate to'']"

text \<open>
  What follows the alternation: \<open>\s+\<close> takes the whole run of white space (a shorter run
  would leave a white space for the group, which refuses it), and the group takes the whole
  run of other code units, which must not be empty.
\<close>

definition match_tail :: "string \<Rightarrow> string option" where
  "match_tail r =
     (if takeWhile is_space r = [] then None
      else if takeWhile (\<lambda>c. \<not> is_space c) (dropWhile is_space r) = [] then None
      else Some (takeWhile (\<lambda>c. \<not> is_space c) (dropWhile is_space r)))"

text \<open>
  The pattern at the start of \<open>s\<close>: the alternatives in their order, the next one when the
  rest of the pattern fails after an alternative.
\<close>

fun match_alternatives :: "string list \<Rightarrow> string \<Rightarrow> string option" where
  "match_alternatives [] s = None"
| "match_alternatives (p # ps) s =
     (if match_literal p s
      then (case match_tail (drop (length p) s) of
              Some t \<Rightarrow> Some t
            | None \<Rightarrow> match_alternatives ps s)
      else match_alternatives ps s)"

text \<open>
  \<open>task.match(...)\<close>: the start positions from left to right, the first one where the
  pattern matches. The result is the text of group 1, \<open>urlMatch[1]\<close>.
\<close>

fun url_match :: "string \<Rightarrow> string option" where
  "url_match [] = match_alternatives phrases []"
| "url_match (c # cs) =
     (case match_alternatives phrases (c # cs) of
        Some t \<Rightarrow> Some t
      | None \<Rightarrow> url_match cs)"

text \<open>The address handed to \<open>goto\<close>.\<close>

definition goto_url :: "string \<Rightarrow> string" where
  "goto_url url = (if startsWith url ''http'' then url else ''https://'' @ url)"

subsection \<open>The legacy agent\<close>

definition failure :: "string option \<Rightarrow> ExecutionResult" where
  "failure e = \<lparr>success = False, message = None, title = None, response = None,
     error = e, note_text = None\<rparr>"

definition tool_execute :: "tool_definition \<Rightarrow> action \<Rightarrow> tool_result proc" where
  "tool_execute t a = call (ToolExecute a (execute t a)) (execute t a)"

definition tool_cleanup :: "tool_definition \<Rightarrow> unit proc" where
  "tool_cleanup t =
     (case cleanup t of
        None \<Rightarrow> ret ()
      | Some r \<Rightarrow> call ToolCleanup r)"

text \<open>The branch of \<open>run\<close> taken when the browser tool is in the registry.\<close>

definition playwright_branch :: "string \<Rightarrow> tool_definition \<Rightarrow> ExecutionResult proc" where
  "playwright_branch task playwrightTool =
     seq (agent_log ''Using Playwright browser tool...'') (\<lambda>_.
     case url_match task of
       Some url \<Rightarrow>
         seq (agent_log (''Navigating to: '' @ url)) (\<lambda>_.
         seq (tool_execute playwrightTool (Goto (goto_url url))) (\<lambda>navResult.
         if tr_success navResult then
           seq (agent_log ''Getting page title...'') (\<lambda>_.
           seq (tool_execute playwrightTool Title) (\<lambda>titleResult.
           if tr_success titleResult then
             seq (tool_cleanup playwrightTool) (\<lambda>_.
             ret \<lparr>success = True,
                  message = Some (''Page title: '' @ js_string (tr_data titleResult)),
                  title = tr_data titleResult, response = None, error = None,
                  note_text = None\<rparr>)
           else ret (failure (tr_error titleResult))))
         else ret (failure (tr_error navResult))))
     | None \<Rightarrow> ret (failure (Some ''Could not extract URL from task'')))"

definition browser_intent :: "string \<Rightarrow> bool" where
  "browser_intent task =
     (let taskLower = toLowerCase task
      in includes_str taskLower ''playwright'' \<or> includes_str taskLower ''browser''
         \<or> includes_str taskLower ''title of'')"

definition run_body :: "string \<Rightarrow> registry \<Rightarrow> ExecutionResult proc" where
  "run_body task loadedTools =
     seq (if browser_intent task then
            (case map_of loadedTools ''PlaywrightBrowser'' of
               Some playwrightTool \<Rightarrow> playwright_branch task playwrightTool
             | None \<Rightarrow> ret (failure (Some
                 ''Playwright tool not found. Install it with: npm install @acrobi/tool-playwright'')))
          else
            seq (agent_log (''Executing task: '' @ task)) (\<lambda>_.
            seq (emit (Delay 1000)) (\<lambda>_.
            ret \<lparr>success = True,
                 message = Some (''Task '' @ [dquote] @ task @ [dquote]
                                 @ '' completed successfully (simulated execution)''),
                 title = None, response = None, error = None,
                 note_text = Some
                   ''This is a simulated result. For actual automation, install specific tool packages.''\<rparr>)))
         (\<lambda>result.
     seq (agent_log ''Task execution completed'') (\<lambda>_.
     ret result))"

text \<open>\<open>LocalExecutorAgent.run\<close>: the body, and the handler that logs and throws again.\<close>

definition LocalExecutorAgent_run :: "string \<Rightarrow> registry \<Rightarrow> ExecutionResult proc" where
  "LocalExecutorAgent_run task loadedTools =
     seq (agent_log ''Starting local task execution...'') (\<lambda>_.
     try_catch (run_body task loadedTools) (\<lambda>error.
       seq (agent_log (''Error in task execution: '' @ error_toString error)) (\<lambda>_.
       throw error)))"

text \<open>
  The legacy branch of the command. \<open>new Session\<close> and the class declaration throw a
  \<open>TypeError\<close> when the runtime module lacks the export.
\<close>

definition legacy_engine :: "string \<Rightarrow> cortex_module \<Rightarrow> registry \<Rightarrow> ExecutionResult proc" where
  "legacy_engine task caps loadedTools =
     seq (console_log ''Using Legacy Engine'') (\<lambda>_.
     case Session caps of
       None \<Rightarrow> throw (TypeError ''Session is not a constructor'')
     | Some new_session \<Rightarrow>
         seq (call NewSession new_session) (\<lambda>_.
         case Agent caps of
           None \<Rightarrow> throw (TypeError ''Class extends value undefined is not a constructor or null'')
         | Some agent \<Rightarrow>
             seq (console_log ''Creating local executor agent...'') (\<lambda>_.
             seq (call NewAgent (agent_construct agent)) (\<lambda>_.
             seq (console_log ''Executing task...'') (\<lambda>_.
             seq (LocalExecutorAgent_run task loadedTools) (\<lambda>result.
             seq (call AgentCleanup (agent_cleanup agent)) (\<lambda>_.
             ret result)))))))"

subsection \<open>The native engine\<close>

text \<open>\<open>a || b || ''\<close> on strings that may be \<open>undefined\<close>.\<close>

definition code_hint :: "tool_definition \<Rightarrow> string" where
  "code_hint t =
     (if truthy (code t) then the (code t)
      else if truthy (input_schema_description t) then the (input_schema_description t)
      else [])"

definition descriptor :: "string \<times> tool_definition \<Rightarrow> tool_descriptor" where
  "descriptor nt = \<lparr>td_name = fst nt, td_description = description (snd nt),
     td_code = code_hint (snd nt)\<rparr>"

definition tools_used :: "native_response \<Rightarrow> string list" where
  "tools_used r = (case toolUse r of None \<Rightarrow> [] | Some ns \<Rightarrow> ns)"

definition native_exchange ::
    "string \<Rightarrow> options \<Rightarrow> manager_class \<Rightarrow> string \<Rightarrow> ExecutionResult proc" where
  "native_exchange task opts manager sessionId =
     try_finally
       (seq (call (SendMessage sessionId task (sendMessage manager sessionId task))
                  (sendMessage manager sessionId task)) (\<lambda>response.
        seq (if verbose opts \<and> tools_used response \<noteq> []
             then console_log (''Tools used: '' @ join_comma (tools_used response))
             else ret ()) (\<lambda>_.
        ret \<lparr>success = True, message = Some ''Task completed with native engine'',
             title = None, response = content response, error = None, note_text = None\<rparr>)))
       (seq (call (DeactivateSession sessionId (deactivateSession manager sessionId))
                  (deactivateSession manager sessionId)) (\<lambda>_.
        console_log ''Native session deactivated''))"

definition native_options :: "world \<Rightarrow> registry \<Rightarrow> session_options" where
  "native_options w loadedTools =
     \<lparr>so_tools = map descriptor loadedTools, so_projectName = basename_cwd w,
      so_environment = ''local'', so_workingDirectory = cwd w, so_engine = ''native''\<rparr>"

definition native_engine ::
    "string \<Rightarrow> options \<Rightarrow> world \<Rightarrow> cortex_module \<Rightarrow> registry \<Rightarrow> ExecutionResult proc" where
  "native_engine task opts w caps loadedTools =
     seq (console_log ''Using Native Engine with Anthropic SDK'') (\<lambda>_.
     case NativeSessionManager caps of
       None \<Rightarrow> throw (Error
         ''NativeSessionManager not available - please ensure @acrobi/cortex is properly installed'')
     | Some manager \<Rightarrow>
         seq (call NewNativeSessionManager (construct manager)) (\<lambda>_.
         seq (call (CreateSession (native_options w loadedTools)
                      (createSession manager (native_options w loadedTools)))
                   (createSession manager (native_options w loadedTools))) (\<lambda>sessionId.
         seq (console_log (''Created native session: '' @ sessionId)) (\<lambda>_.
         native_exchange task opts manager sessionId))))"

subsection \<open>The command\<close>

text \<open>\<open>options.engine || 'legacy'\<close>: an absent or empty option gives the default.\<close>

definition effective_engine :: "options \<Rightarrow> string" where
  "effective_engine opts = (if truthy (engine opts) then the (engine opts) else ''legacy'')"

definition validate_engine :: "options \<Rightarrow> string proc" where
  "validate_engine opts =
     (if effective_engine opts \<notin> set [''legacy'', ''native''] then
        seq (console_error (''Error: Invalid engine '' @ [dquote] @ effective_engine opts
               @ [dquote] @ ''. Valid options are: legacy, native'')) (\<lambda>_.
        process_exit 1)
      else ret (effective_engine opts))"

text \<open>
  The runtime: the local module, else the package. The four variables of the source are
  the four fields of the result; the package branch leaves \<open>NativeSessionManager\<close>
  unassigned.
\<close>

definition import_cortex :: "world \<Rightarrow> cortex_module proc" where
  "import_cortex w =
     try_catch
       (seq (call ImportLocalCortex (import_local_cortex w)) (\<lambda>cortexModule.
        ret \<lparr>Agent = Agent cortexModule, Session = Session cortexModule,
             NativeSessionManager = NativeSessionManager cortexModule,
             Orchestrator = Orchestrator cortexModule\<rparr>))
       (\<lambda>importError.
        try_catch
          (seq (call ImportPackageCortex (import_package_cortex w)) (\<lambda>cortexPackage.
           ret \<lparr>Agent = Agent cortexPackage, Session = Session cortexPackage,
                NativeSessionManager = None,
                Orchestrator = Orchestrator cortexPackage\<rparr>))
          (\<lambda>packageError.
           seq (console_error ''Cortex runtime not found'') (\<lambda>_.
           seq (console_log ''Install it locally: npm install file:../cortex'') (\<lambda>_.
           seq (console_log ''Or install from npm: npm install @acrobi/cortex'') (\<lambda>_.
           process_exit 1)))))"

text \<open>The tool loader: the local module, else the package, else \<open>null\<close> and a warning.\<close>

definition import_loader :: "world \<Rightarrow> (js_error + registry) option proc" where
  "import_loader w =
     try_catch
       (seq (call ImportLocalLoader (import_local_loader w)) (\<lambda>m.
        ret (initializeTools m)))
       (\<lambda>toolError.
        try_catch
          (seq (call ImportPackageLoader (import_package_loader w)) (\<lambda>m.
           ret (initializeTools m)))
          (\<lambda>packageToolError.
           seq (console_warn ''Dynamic tool loading not available'') (\<lambda>_.
           ret None)))"

fun list_tools :: "registry \<Rightarrow> unit proc" where
  "list_tools [] = ret ()"
| "list_tools (nt # rest) =
     seq (console_log (''  - '' @ fst nt @ '': '' @ description (snd nt))) (\<lambda>_.
     list_tools rest)"

text \<open>The number of tools is printed in decimal.\<close>

fun digits :: "nat \<Rightarrow> nat \<Rightarrow> string" where
  "digits 0 n = []"
| "digits (Suc fuel) n =
     (if n < 10 then [''0123456789'' ! n]
      else digits fuel (n div 10) @ [''0123456789'' ! (n mod 10)])"

definition decimal :: "nat \<Rightarrow> string" where
  "decimal n = digits (Suc n) n"

definition load_tools :: "options \<Rightarrow> world \<Rightarrow> (js_error + registry) option \<Rightarrow> registry proc" where
  "load_tools opts w init =
     (case init of
        None \<Rightarrow> ret []
      | Some initTools \<Rightarrow>
          seq (console_log ''Loading dynamic tools...'') (\<lambda>_.
          seq (call (InitializeTools (cwd w)) initTools) (\<lambda>loadedTools.
          seq (if verbose opts then
                 seq (console_log (''Found '' @ decimal (length loadedTools) @ '' tool(s):'')) (\<lambda>_.
                 list_tools loadedTools)
               else ret ()) (\<lambda>_.
          ret loadedTools))))"

definition execute_task ::
    "string \<Rightarrow> string \<Rightarrow> options \<Rightarrow> world \<Rightarrow> cortex_module \<Rightarrow> registry \<Rightarrow> ExecutionResult proc" where
  "execute_task eng task opts w caps loadedTools =
     (if eng = ''native'' then native_engine task opts w caps loadedTools
      else legacy_engine task caps loadedTools)"

definition print_if :: "string option \<Rightarrow> string \<Rightarrow> unit proc" where
  "print_if field line = (if truthy field then console_log line else ret ())"

definition report :: "world \<Rightarrow> ExecutionResult \<Rightarrow> unit proc" where
  "report w result =
     seq (console_log (newline # ''Task Execution Complete!'')) (\<lambda>_.
     seq (console_log (''Duration: '' @ duration w @ ''ms'')) (\<lambda>_.
     if success result then
       seq (console_log ''Result:'') (\<lambda>_.
       seq (print_if (title result)
              (''   Title: '' @ [dquote] @ js_string (title result) @ [dquote])) (\<lambda>_.
       seq (print_if (message result) (''   Message: '' @ js_string (message result))) (\<lambda>_.
       seq (print_if (response result) (''   Response: '' @ js_string (response result))) (\<lambda>_.
       seq (print_if (note_text result) (''   Note: '' @ js_string (note_text result))) (\<lambda>_.
       console_log (newline # ''Task completed successfully!''))))))
     else
       seq (console_log ''Error:'') (\<lambda>_.
       seq (console_log (''   '' @ js_string (error result))) (\<lambda>_.
       process_exit 1))))"

text \<open>The body of the outer \<open>try\<close>.\<close>

definition run_stages :: "string \<Rightarrow> options \<Rightarrow> world \<Rightarrow> string \<Rightarrow> unit proc" where
  "run_stages task opts w eng =
     seq (console_log (''Running Acrobi task: '' @ [dquote] @ task @ [dquote])) (\<lambda>_.
     seq (console_log (''Using engine: '' @ toUpperCase eng)) (\<lambda>_.
     seq (import_cortex w) (\<lambda>caps.
     seq (import_loader w) (\<lambda>init.
     seq (console_log ''Initializing Cortex runtime...'') (\<lambda>_.
     seq (load_tools opts w init) (\<lambda>loadedTools.
     seq (execute_task eng task opts w caps loadedTools) (\<lambda>result.
     report w result)))))))"

definition top_level_handler :: "options \<Rightarrow> js_error \<Rightarrow> unit proc" where
  "top_level_handler opts err =
     seq (console_error (newline # ''Error: '' @ error_message err)) (\<lambda>_.
     seq (if verbose opts then emit (ConsoleErrorStack err) else ret ()) (\<lambda>_.
     process_exit 1))"

definition runCommand :: "string \<Rightarrow> options \<Rightarrow> world \<Rightarrow> unit proc" where
  "runCommand task opts w =
     try_catch
       (seq (validate_engine opts) (\<lambda>eng. run_stages task opts w eng))
       (top_level_handler opts)"

subsection \<open>Notions of the specification\<close>

text \<open>
  The normalization invariant of an \<open>ExecutionResult\<close>, in the words of the
  specification: a failure carries an error, a success carries a message, a title or a
  response. A field is populated when it is not \<open>undefined\<close>.
\<close>

definition normalized :: "ExecutionResult \<Rightarrow> bool" where
  "normalized r =
     ((\<not> success r \<longrightarrow> error r \<noteq> None)
      \<and> (success r \<longrightarrow> message r \<noteq> None \<or> title r \<noteq> None \<or> response r \<noteq> None))"

text \<open>A tool answers a request with an error value whenever it answers with a failure.\<close>

definition reports_errors :: "tool_definition \<Rightarrow> action \<Rightarrow> bool" where
  "reports_errors t a =
     (case execute t a of
        Inl e \<Rightarrow> True
      | Inr r \<Rightarrow> tr_success r \<or> tr_error r \<noteq> None)"

text \<open>
  A reference carries a URL scheme when it starts with a letter followed by letters,
  digits, \<open>+\<close>, \<open>-\<close> or \<open>.\<close>, and then \<open>://\<close>.
\<close>

definition is_alpha :: "char \<Rightarrow> bool" where
  "is_alpha c = (c \<in> set (lower_letters @ upper_letters))"

definition is_scheme_char :: "char \<Rightarrow> bool" where
  "is_scheme_char c = (is_alpha c \<or> c \<in> set ''0123456789+-.'')"

definition carries_scheme :: "string \<Rightarrow> bool" where
  "carries_scheme u =
     (case u of
        [] \<Rightarrow> False
      | c # cs \<Rightarrow> is_alpha c \<and> prefix ''://'' (dropWhile is_scheme_char u))"






subsection \<open>Notions for the traces\<close>

text \<open>
  Where an event comes from: the console (log and warning lines), a fatal report (error
  lines, the stack and the exit of the process), module loading and tool discovery, the
  native session manager, the legacy session and agent, and the inside of the agent's
  \<open>run\<close> method.
\<close>

datatype origin = Console | Failure | Import | Native | Legacy | Run

fun origin_of :: "event \<Rightarrow> origin" where
  "origin_of (ConsoleLog s) = Console"
| "origin_of (ConsoleWarn s) = Console"
| "origin_of (ConsoleError s) = Failure"
| "origin_of (ConsoleErrorStack e) = Failure"
| "origin_of (ProcessExit n) = Failure"
| "origin_of ImportLocalCortex = Import"
| "origin_of ImportPackageCortex = Import"
| "origin_of ImportLocalLoader = Import"
| "origin_of ImportPackageLoader = Import"
| "origin_of (InitializeTools d) = Import"
| "origin_of NewNativeSessionManager = Native"
| "origin_of (CreateSession so r) = Native"
| "origin_of (SendMessage sid t r) = Native"
| "origin_of (DeactivateSession sid r) = Native"
| "origin_of NewSession = Legacy"
| "origin_of NewAgent = Legacy"
| "origin_of AgentCleanup = Legacy"
| "origin_of (AgentLog s) = Run"
| "origin_of (ToolExecute a r) = Run"
| "origin_of ToolCleanup = Run"
| "origin_of (Delay n) = Run"

fun is_deactivate :: "event \<Rightarrow> bool" where
  "is_deactivate (DeactivateSession sid r) = True"
| "is_deactivate e = False"

fun is_send :: "event \<Rightarrow> bool" where
  "is_send (SendMessage sid t r) = True"
| "is_send e = False"

definition from_origins :: "origin set \<Rightarrow> 'a proc \<Rightarrow> bool" where
  "from_origins S p = (\<forall>e \<in> set (fst p). origin_of e \<in> S)"

text \<open>
  The command from the engine on, for a resolved runtime and a loaded registry: the
  engine, the report, and the top-level handler around them.
\<close>

definition finish ::
    "string \<Rightarrow> string \<Rightarrow> options \<Rightarrow> world \<Rightarrow> cortex_module \<Rightarrow> registry \<Rightarrow> unit proc" where
  "finish eng task opts w caps loadedTools =
     try_catch (seq (execute_task eng task opts w caps loadedTools) (report w))
       (top_level_handler opts)"

subsection \<open>Sample collaborators\<close>

definition example_tool :: tool_definition where
  "example_tool = \<lparr>description = ''Browser automation'', code = None,
     input_schema_description = None,
     execute = (\<lambda>a. case a of
        Goto u \<Rightarrow> Inr \<lparr>tr_success = True, tr_data = None, tr_error = None\<rparr>
      | Title \<Rightarrow> Inr \<lparr>tr_success = True, tr_data = Some ''Example Domain'', tr_error = None\<rparr>),
     cleanup = Some (Inr ())\<rparr>"

definition example_manager :: manager_class where
  "example_manager = \<lparr>construct = Inr (), createSession = (\<lambda>so. Inr ''s1''),
     sendMessage = (\<lambda>sid text. Inr \<lparr>content = Some ''done'', toolUse = None\<rparr>),
     deactivateSession = (\<lambda>sid. Inr ())\<rparr>"

definition example_module :: cortex_module where
  "example_module = \<lparr>Agent = Some \<lparr>agent_construct = Inr (), agent_cleanup = Inr ()\<rparr>,
     Session = Some (Inr ()), NativeSessionManager = Some example_manager,
     Orchestrator = Some ()\<rparr>"

definition example_world :: world where
  "example_world = \<lparr>import_local_cortex = Inr example_module,
     import_package_cortex = Inl (Error ''Cannot find package''),
     import_local_loader =
       Inr \<lparr>initializeTools = Some (Inr [(''PlaywrightBrowser'', example_tool)])\<rparr>,
     import_package_loader = Inl (Error ''Cannot find package''),
     cwd = ''/home/user/project'', basename_cwd = ''project'', duration = ''12''\<rparr>"

text \<open>The runtime is installed as the package only: the local module is not there.\<close>

definition package_world :: world where
  "package_world = example_world\<lparr>import_local_cortex := Inl (Error ''Cannot find module''),
     import_package_cortex := Inr example_module\<rparr>"

text \<open>A session manager whose \<open>sendMessage\<close> throws.\<close>

definition failing_message_world :: world where
  "failing_message_world = example_world\<lparr>import_local_cortex :=
     Inr (example_module\<lparr>NativeSessionManager :=
       Some (example_manager\<lparr>sendMessage :=
         (\<lambda>sid text. Inl (Error ''network unreachable''))\<rparr>)\<rparr>)\<rparr>"

text \<open>No tool loader, in neither place.\<close>

definition no_loader_world :: world where
  "no_loader_world = example_world\<lparr>import_local_loader := Inl (Error ''Cannot find module'')\<rparr>"

text \<open>A tool loader that is found and throws when it is run.\<close>

definition failing_loader_world :: world where
  "failing_loader_world = example_world\<lparr>import_local_loader :=
        Inr \<lparr>initializeTools = Some (Inl (Error ''EACCES: permission denied''))\<rparr>\<rparr>"

text \<open>A browser tool that throws on every request.\<close>

definition crashing_tool :: tool_definition where
  "crashing_tool = example_tool\<lparr>execute := (\<lambda>a. Inl (Error ''browser crashed''))\<rparr>"

definition crashing_tool_world :: world where
  "crashing_tool_world = example_world\<lparr>import_local_loader :=
     Inr \<lparr>initializeTools = Some (Inr [(''PlaywrightBrowser'', crashing_tool)])\<rparr>\<rparr>"

section \<open>Properties\<close>

subsection \<open>Composition\<close>

lemmas proc_defs = seq_def try_catch_def try_finally_def ret_def throw_def emit_def call_def
  console_log_def console_error_def console_warn_def process_exit_def agent_log_def

lemmas char_tables = lower_letters_def upper_letters_def

lemmas example_defs = example_world_def example_module_def example_manager_def
  example_tool_def package_world_def

lemma seq_assoc: "seq (seq p f) g = seq p (\<lambda>x. seq (f x) g)"
  by (cases p) (auto simp: seq_def split: completion.splits)

lemma from_origins_ret [simp]: "from_origins S (ret x)"
  by (simp add: from_origins_def ret_def)
lemma from_origins_throw [simp]: "from_origins S (throw x)"
  by (simp add: from_origins_def throw_def)
lemma from_origins_emit [simp]: "from_origins S (emit e) = (origin_of e \<in> S)"
  by (simp add: from_origins_def emit_def)
lemma from_origins_call [simp]: "from_origins S (call e r) = (origin_of e \<in> S)"
  by (simp add: from_origins_def call_def)
lemma from_origins_exit [simp]: "from_origins S (process_exit n) = (Failure \<in> S)"
  by (simp add: from_origins_def process_exit_def)
lemma from_origins_seq:
  "from_origins S p \<Longrightarrow> (\<And>x. from_origins S (f x)) \<Longrightarrow> from_origins S (seq p f)"
  by (auto simp: from_origins_def seq_def split: completion.splits)
lemma from_origins_try_catch:
  "from_origins S p \<Longrightarrow> (\<And>x. from_origins S (h x)) \<Longrightarrow> from_origins S (try_catch p h)"
  by (auto simp: from_origins_def try_catch_def split: completion.splits)
lemma from_origins_try_finally:
  "from_origins S p \<Longrightarrow> from_origins S q \<Longrightarrow> from_origins S (try_finally p q)"
  by (auto simp: from_origins_def try_finally_def split: completion.splits)
lemma from_origins_mono: "from_origins S p \<Longrightarrow> S \<subseteq> T \<Longrightarrow> from_origins T p"
  by (auto simp: from_origins_def)

lemmas from_origins_intros = from_origins_seq from_origins_try_catch from_origins_try_finally

lemma from_origins_list_tools: "Console \<in> S \<Longrightarrow> from_origins S (list_tools r)"
  by (induction r) (auto intro!: from_origins_intros simp: console_log_def)

lemma from_origins_load_tools: "{Console, Import} \<subseteq> S \<Longrightarrow> from_origins S (load_tools opts w i)"
  by (auto simp: load_tools_def console_log_def split: option.splits
        intro!: from_origins_intros from_origins_list_tools)

lemma from_origins_import_loader: "{Console, Import} \<subseteq> S \<Longrightarrow> from_origins S (import_loader w)"
  by (auto simp: import_loader_def console_warn_def intro!: from_origins_intros)

lemma from_origins_import_cortex:
  "{Console, Import, Failure} \<subseteq> S \<Longrightarrow> from_origins S (import_cortex w)"
  by (auto simp: import_cortex_def console_log_def console_error_def intro!: from_origins_intros)

lemma import_cortex_Normal:
  "snd (import_cortex w) = Normal caps \<Longrightarrow> from_origins {Console, Import} (import_cortex w)"
  by (auto simp: import_cortex_def proc_defs from_origins_def split: sum.splits)

lemma from_origins_report: "{Console, Failure} \<subseteq> S \<Longrightarrow> from_origins S (report w r)"
  by (auto simp: report_def print_if_def console_log_def intro!: from_origins_intros)

lemma from_origins_handler: "Failure \<in> S \<Longrightarrow> from_origins S (top_level_handler opts e)"
  by (auto simp: top_level_handler_def console_error_def intro!: from_origins_intros)

lemma from_origins_run: "Run \<in> S \<Longrightarrow> from_origins S (LocalExecutorAgent_run task tools)"
  by (auto simp: LocalExecutorAgent_run_def run_body_def playwright_branch_def tool_execute_def
        tool_cleanup_def agent_log_def split: option.splits
        intro!: from_origins_intros)

lemma from_origins_legacy:
  "{Console, Legacy, Run} \<subseteq> S \<Longrightarrow> from_origins S (legacy_engine task caps tools)"
  by (auto simp: legacy_engine_def console_log_def split: option.splits
        intro!: from_origins_intros from_origins_run)

lemma from_origins_native:
  "{Console, Native} \<subseteq> S \<Longrightarrow> from_origins S (native_engine task opts w caps tools)"
  by (auto simp: native_engine_def native_exchange_def console_log_def split: option.splits
        intro!: from_origins_intros)


subsection \<open>The stages of the command\<close>

lemma runCommand_reach:
  assumes "effective_engine opts \<in> {''legacy'', ''native''}"
    and "snd (import_cortex w) = Normal caps"
    and "snd (import_loader w) = Normal init"
    and "snd (load_tools opts w init) = Normal tools"
  shows "runCommand task opts w =
     ([ConsoleLog (''Running Acrobi task: '' @ [dquote] @ task @ [dquote]),
       ConsoleLog (''Using engine: '' @ toUpperCase (effective_engine opts))]
      @ fst (import_cortex w) @ fst (import_loader w)
      @ ConsoleLog ''Initializing Cortex runtime...'' # fst (load_tools opts w init)
      @ fst (finish (effective_engine opts) task opts w caps tools),
      snd (finish (effective_engine opts) task opts w caps tools))"
  using assms
  by (simp add: runCommand_def validate_engine_def run_stages_def finish_def
        seq_def try_catch_def console_log_def emit_def ret_def split: completion.splits)

lemma from_origins_seq_Normal:
  "from_origins S p \<Longrightarrow> (\<And>x. snd p = Normal x \<Longrightarrow> from_origins S (f x))
     \<Longrightarrow> from_origins S (seq p f)"
  by (auto simp: from_origins_def seq_def split: completion.splits)

lemma validate_engine_Normal:
  "snd (validate_engine opts) = Normal eng \<Longrightarrow>
     eng = effective_engine opts \<and> effective_engine opts \<in> {''legacy'', ''native''}"
  by (auto simp: validate_engine_def proc_defs split: if_splits)

lemma from_origins_validate: "Failure \<in> S \<Longrightarrow> from_origins S (validate_engine opts)"
  by (auto simp: validate_engine_def console_error_def intro!: from_origins_intros)

lemma not_reached:
  assumes "\<not> (\<exists>caps init tools. effective_engine opts \<in> {''legacy'', ''native''}
        \<and> snd (import_cortex w) = Normal caps \<and> snd (import_loader w) = Normal init
        \<and> snd (load_tools opts w init) = Normal tools)"
  shows "from_origins {Console, Failure, Import} (runCommand task opts w)"
  unfolding runCommand_def run_stages_def
  apply (rule from_origins_try_catch)
   apply (rule from_origins_seq_Normal)
    apply (simp add: from_origins_validate)
   apply (drule validate_engine_Normal)
   apply (rule from_origins_seq_Normal, simp add: console_log_def)
   apply (rule from_origins_seq_Normal, simp add: console_log_def)
   apply (rule from_origins_seq_Normal, simp add: from_origins_import_cortex)
   apply (rule from_origins_seq_Normal, simp add: from_origins_import_loader)
   apply (rule from_origins_seq_Normal, simp add: console_log_def)
   apply (rule from_origins_seq_Normal, simp add: from_origins_load_tools)
  using assms apply blast
  apply (simp add: from_origins_handler)
  done

lemma finish_split:
  "\<exists>post. fst (finish eng task opts w caps tools)
       = fst (execute_task eng task opts w caps tools) @ post
     \<and> (\<forall>e \<in> set post. origin_of e \<in> {Console, Failure})"
proof -
  note r = from_origins_report [of "{Console, Failure}" w, unfolded from_origins_def]
  note h = from_origins_handler [of "{Console, Failure}" opts, unfolded from_origins_def]
  show ?thesis
  proof (cases "snd (execute_task eng task opts w caps tools)")
    case (Normal x)
    have "fst (finish eng task opts w caps tools)
        = fst (execute_task eng task opts w caps tools) @ fst (report w x) @
          (case snd (report w x) of Throw e \<Rightarrow> fst (top_level_handler opts e) | _ \<Rightarrow> [])"
      using Normal by (simp add: finish_def seq_def try_catch_def split: completion.splits)
    moreover have "\<forall>e \<in> set (fst (report w x) @
          (case snd (report w x) of Throw e \<Rightarrow> fst (top_level_handler opts e) | _ \<Rightarrow> [])).
          origin_of e \<in> {Console, Failure}"
      using r h by (auto split: completion.splits)
    ultimately show ?thesis by blast
  next
    case (Throw e)
    then have "fst (finish eng task opts w caps tools)
        = fst (execute_task eng task opts w caps tools) @ fst (top_level_handler opts e)"
      by (simp add: finish_def seq_def try_catch_def)
    with h show ?thesis by blast
  next
    case (Exit n)
    then have "fst (finish eng task opts w caps tools)
        = fst (execute_task eng task opts w caps tools) @ []"
      by (simp add: finish_def seq_def try_catch_def)
    then show ?thesis by (metis empty_iff list.set(1))
  qed
qed

lemma native_exchange_trace:
  "fst (native_exchange task opts m sid) =
     SendMessage sid task (sendMessage m sid task)
     # (case sendMessage m sid task of
          Inr resp \<Rightarrow> if verbose opts \<and> tools_used resp \<noteq> []
                       then [ConsoleLog (''Tools used: '' @ join_comma (tools_used resp))] else []
        | Inl e \<Rightarrow> [])
     @ DeactivateSession sid (deactivateSession m sid)
     # (case deactivateSession m sid of Inr u \<Rightarrow> [ConsoleLog ''Native session deactivated'']
        | Inl e \<Rightarrow> [])"
  by (simp add: native_exchange_def proc_defs split: sum.splits)

lemma native_engine_created:
  assumes "CreateSession so (Inr sid) \<in> set (fst (native_engine task opts w caps tools))"
  shows "\<exists>m. NativeSessionManager caps = Some m \<and> fst (native_engine task opts w caps tools) =
      [ConsoleLog ''Using Native Engine with Anthropic SDK'', NewNativeSessionManager,
       CreateSession so (Inr sid), ConsoleLog (''Created native session: '' @ sid)]
      @ fst (native_exchange task opts m sid)"
  using assms
  by (auto simp: native_engine_def native_exchange_trace seq_def call_def console_log_def
        emit_def throw_def split: option.splits sum.splits if_splits)


lemma top_level_handler_exit: "snd (top_level_handler opts e) = Exit 1"
  by (simp add: top_level_handler_def proc_defs)

lemma setup_origins:
  assumes "snd (import_cortex w) = Normal caps"
  shows "\<forall>e \<in> set ([ConsoleLog a, ConsoleLog b]
      @ fst (import_cortex w) @ fst (import_loader w)
      @ ConsoleLog c # fst (load_tools opts w init)). origin_of e \<in> {Console, Import}"
  using import_cortex_Normal [OF assms]
    from_origins_import_loader [of "{Console, Import}" w]
    from_origins_load_tools [of "{Console, Import}" opts w init]
  by (auto simp: from_origins_def)

subsection \<open>The engine option\<close>

lemma load_tools_engine [simp]: "load_tools (opts\<lparr>engine := x\<rparr>) w i = load_tools opts w i"
  by (simp add: load_tools_def cong: if_cong option.case_cong)

lemma native_engine_engine [simp]:
  "native_engine task (opts\<lparr>engine := x\<rparr>) w caps tools = native_engine task opts w caps tools"
  by (simp add: native_engine_def native_exchange_def cong: if_cong option.case_cong)

lemma top_level_handler_engine [simp]:
  "top_level_handler (opts\<lparr>engine := x\<rparr>) = top_level_handler opts"
  by (rule ext) (simp add: top_level_handler_def)

lemma run_stages_engine [simp]:
  "run_stages task (opts\<lparr>engine := x\<rparr>) w eng = run_stages task opts w eng"
  by (simp add: run_stages_def execute_task_def cong: if_cong)

lemma default_engine:
  "\<not> truthy (engine opts) \<Longrightarrow>
     runCommand task opts w = runCommand task (opts\<lparr>engine := Some ''legacy''\<rparr>) w"
  by (simp add: runCommand_def validate_engine_def effective_engine_def)

lemma invalid_engine:
  "engine opts = Some e \<Longrightarrow> e \<noteq> [] \<Longrightarrow> e \<notin> {''legacy'', ''native''} \<Longrightarrow>
      runCommand task opts w =
        ([ConsoleError (''Error: Invalid engine '' @ [dquote] @ e @ [dquote]
            @ ''. Valid options are: legacy, native''), ProcessExit 1], Exit 1)"
  by (simp add: runCommand_def validate_engine_def effective_engine_def proc_defs)

text \<open>
  Claim C2, as the code has it. An engine option that is not empty and is neither
  \<open>legacy\<close> nor \<open>native\<close> ends the run with exit code 1: the whole trace is the report
  with the list of valid options and the exit, so nothing is imported, no session is
  created and no tool is loaded. An absent or empty option runs as \<open>legacy\<close> does.
\<close>

theorem invalid_engine_rejected:
  "(\<forall>e. engine opts = Some e \<and> e \<noteq> [] \<and> e \<notin> {''legacy'', ''native''} \<longrightarrow>
      runCommand task opts w =
        ([ConsoleError (''Error: Invalid engine '' @ [dquote] @ e @ [dquote]
            @ ''. Valid options are: legacy, native''), ProcessExit 1], Exit 1))
   \<and> (engine opts = None \<or> engine opts = Some [] \<longrightarrow>
      runCommand task opts w = runCommand task (opts\<lparr>engine := Some ''legacy''\<rparr>) w)"
  using invalid_engine [of opts _ task w] default_engine [of opts task w] by auto

theorem invalid_engine_rejected_witness:
  "runCommand ''build'' \<lparr>engine = Some ''fast'', verbose = False\<rparr> example_world =
     ([ConsoleError (''Error: Invalid engine '' @ [dquote] @ ''fast'' @ [dquote]
            @ ''. Valid options are: legacy, native''), ProcessExit 1], Exit 1)
   \<and> runCommand ''build'' \<lparr>engine = None, verbose = False\<rparr> example_world
     = runCommand ''build'' \<lparr>engine = Some ''legacy'', verbose = False\<rparr> example_world"
  using invalid_engine_rejected [of "\<lparr>engine = Some ''fast'', verbose = False\<rparr>" "''build''" example_world]
    invalid_engine_rejected [of "\<lparr>engine = None, verbose = False\<rparr>" "''build''" example_world]
  by simp

text \<open>
  Claim C2 as stated fails at the empty engine option: it is outside the set of the two
  names, and the run resolves the runtime and ends with exit code 0.
\<close>

theorem empty_engine_counterexample:
  "[] \<notin> {''legacy'', ''native''} \<and>
   ImportLocalCortex \<in> set (fst (runCommand ''build'' \<lparr>engine = Some [], verbose = False\<rparr> example_world))
   \<and> exit_code (snd (runCommand ''build'' \<lparr>engine = Some [], verbose = False\<rparr> example_world)) = 0"
  by (simp add: runCommand_def validate_engine_def effective_engine_def proc_defs
       run_stages_def load_tools_def execute_task_def legacy_engine_def top_level_handler_def
       import_cortex_def import_loader_def example_defs
       LocalExecutorAgent_run_def run_body_def browser_intent_def toLowerCase_def lower_char_def char_tables
       report_def print_if_def toUpperCase_def upper_char_def char_tables)

subsection \<open>Runtime resolution\<close>

text \<open>
  Claim C9. When the local module and the package both fail to load, the run reports
  that the runtime was not found, prints the two installation hints and exits with code 1.
  Each source is tried once: the trace holds one import of each.
\<close>

theorem runtime_unavailable:
  assumes "effective_engine opts \<in> {''legacy'', ''native''}"
    and "import_local_cortex w = Inl e1" and "import_package_cortex w = Inl e2"
  shows "runCommand task opts w =
     ([ConsoleLog (''Running Acrobi task: '' @ [dquote] @ task @ [dquote]),
       ConsoleLog (''Using engine: '' @ toUpperCase (effective_engine opts)),
       ImportLocalCortex, ImportPackageCortex,
       ConsoleError ''Cortex runtime not found'',
       ConsoleLog ''Install it locally: npm install file:../cortex'',
       ConsoleLog ''Or install from npm: npm install @acrobi/cortex'',
       ProcessExit 1], Exit 1)"
  using assms
  by (auto simp: runCommand_def validate_engine_def proc_defs run_stages_def import_cortex_def)

theorem runtime_unavailable_witness:
  "runCommand ''build'' \<lparr>engine = Some ''native'', verbose = True\<rparr>
     (example_world\<lparr>import_local_cortex := Inl (Error ''Cannot find module'')\<rparr>) =
     ([ConsoleLog (''Running Acrobi task: '' @ [dquote] @ ''build'' @ [dquote]),
       ConsoleLog ''Using engine: NATIVE'',
       ImportLocalCortex, ImportPackageCortex,
       ConsoleError ''Cortex runtime not found'',
       ConsoleLog ''Install it locally: npm install file:../cortex'',
       ConsoleLog ''Or install from npm: npm install @acrobi/cortex'',
       ProcessExit 1], Exit 1)"
  using runtime_unavailable [of "\<lparr>engine = Some ''native'', verbose = True\<rparr>"
      "example_world\<lparr>import_local_cortex := Inl (Error ''Cannot find module'')\<rparr>"
      "Error ''Cannot find module''" "Error ''Cannot find package''" "''build''"]
  by (simp add: effective_engine_def example_world_def toUpperCase_def upper_char_def char_tables)

subsection \<open>The native session\<close>

lemma native_engine_completion:
  assumes "CreateSession so (Inr sid) \<in> set (fst (native_engine task opts w caps tools))"
    and "NativeSessionManager caps = Some m"
  shows "snd (native_engine task opts w caps tools) = snd (native_exchange task opts m sid)"
  using assms
  by (auto simp: native_engine_def native_exchange_trace seq_def call_def console_log_def
        emit_def throw_def split: option.splits sum.splits if_splits)

lemma native_exchange_throws:
  assumes "sendMessage m sid task = Inl err"
  shows "\<exists>e. snd (native_exchange task opts m sid) = Throw e"
  using assms by (simp add: native_exchange_def proc_defs split: sum.splits)

lemma finish_throws:
  assumes "snd (execute_task eng task opts w caps tools) = Throw e"
  shows "snd (finish eng task opts w caps tools) = Exit 1"
  using assms top_level_handler_exit [of opts e]
  by (simp add: finish_def seq_def try_catch_def)

text \<open>
  Claim C1. In every run in which \<open>createSession\<close> has returned a session identifier,
  the message exchange is followed by the one call of \<open>deactivateSession\<close> with that
  identifier, whatever \<open>sendMessage\<close> has done: the trace is the events up to the
  creation, the one \<open>sendMessage\<close> with its outcome \<open>r\<close>, console lines only, the one
  deactivation, and the rest. Nothing before the deactivation is a fatal report, so the
  top-level handler has not yet printed or exited; when \<open>sendMessage\<close> has thrown, the
  run ends with exit code 1 after it.
\<close>

theorem native_session_deactivated:
  assumes "CreateSession so (Inr sid) \<in> set (fst (runCommand task opts w))"
  shows "\<exists>pre r mid d post.
       fst (runCommand task opts w)
         = pre @ SendMessage sid task r # mid @ DeactivateSession sid d # post
     \<and> CreateSession so (Inr sid) \<in> set pre
     \<and> (\<forall>e \<in> set pre. \<not> is_send e \<and> \<not> is_deactivate e \<and> origin_of e \<noteq> Failure)
     \<and> (\<forall>e \<in> set mid. origin_of e = Console)
     \<and> (\<forall>e \<in> set post. \<not> is_send e \<and> \<not> is_deactivate e)
     \<and> (\<forall>err. r = Inl err \<longrightarrow> snd (runCommand task opts w) = Exit 1)"
proof -
  let ?eng = "effective_engine opts"
  have "\<not> from_origins {Console, Failure, Import} (runCommand task opts w)"
    using assms by (force simp: from_origins_def)
  then obtain caps init tools where valid: "?eng \<in> {''legacy'', ''native''}"
    and caps: "snd (import_cortex w) = Normal caps"
    and init: "snd (import_loader w) = Normal init"
    and tools: "snd (load_tools opts w init) = Normal tools"
    using not_reached [of opts w task] by blast
  define P where "P = [ConsoleLog (''Running Acrobi task: '' @ [dquote] @ task @ [dquote]),
       ConsoleLog (''Using engine: '' @ toUpperCase ?eng)]
      @ fst (import_cortex w) @ fst (import_loader w)
      @ ConsoleLog ''Initializing Cortex runtime...'' # fst (load_tools opts w init)"
  have P: "\<forall>e \<in> set P. origin_of e \<in> {Console, Import}"
    unfolding P_def by (rule setup_origins [OF caps])
  have run: "fst (runCommand task opts w) = P @ fst (finish ?eng task opts w caps tools)"
    and completion: "snd (runCommand task opts w) = snd (finish ?eng task opts w caps tools)"
    using runCommand_reach [OF valid caps init tools, of task] by (simp_all add: P_def)
  obtain post where fin: "fst (finish ?eng task opts w caps tools)
       = fst (execute_task ?eng task opts w caps tools) @ post"
    and post: "\<forall>e \<in> set post. origin_of e \<in> {Console, Failure}"
    using finish_split by blast
  have inexec: "CreateSession so (Inr sid) \<in> set (fst (execute_task ?eng task opts w caps tools))"
    using assms P post unfolding run fin by auto
  have native: "?eng = ''native''"
  proof (rule ccontr)
    assume "?eng \<noteq> ''native''"
    then have "from_origins {Console, Legacy, Run} (execute_task ?eng task opts w caps tools)"
      by (simp add: execute_task_def from_origins_legacy)
    with inexec show False by (force simp: from_origins_def)
  qed
  have innative: "CreateSession so (Inr sid) \<in> set (fst (native_engine task opts w caps tools))"
    using inexec native by (simp add: execute_task_def)
  obtain m where m: "NativeSessionManager caps = Some m"
    and exec: "fst (execute_task ?eng task opts w caps tools) =
      [ConsoleLog ''Using Native Engine with Anthropic SDK'', NewNativeSessionManager,
       CreateSession so (Inr sid), ConsoleLog (''Created native session: '' @ sid)]
      @ fst (native_exchange task opts m sid)"
    using native_engine_created [OF innative] native by (auto simp: execute_task_def)
  have exchange: "snd (execute_task ?eng task opts w caps tools)
      = snd (native_exchange task opts m sid)"
    using native_engine_completion [OF innative m] native by (simp add: execute_task_def)
  define mid where "mid = (case sendMessage m sid task of
          Inr resp \<Rightarrow> if verbose opts \<and> tools_used resp \<noteq> []
                       then [ConsoleLog (''Tools used: '' @ join_comma (tools_used resp))] else []
        | Inl e \<Rightarrow> [])"
  define tail where "tail = (case deactivateSession m sid of
          Inr u \<Rightarrow> [ConsoleLog ''Native session deactivated''] | Inl e \<Rightarrow> [])"
  have mid: "\<forall>e \<in> set mid. origin_of e = Console"
    by (auto simp: mid_def split: sum.splits if_splits)
  have tail: "\<forall>e \<in> set tail. origin_of e = Console"
    by (auto simp: tail_def split: sum.splits)
  let ?pre = "P @ [ConsoleLog ''Using Native Engine with Anthropic SDK'', NewNativeSessionManager,
       CreateSession so (Inr sid), ConsoleLog (''Created native session: '' @ sid)]"
  have "fst (runCommand task opts w)
      = ?pre @ SendMessage sid task (sendMessage m sid task) # mid
        @ DeactivateSession sid (deactivateSession m sid) # (tail @ post)"
    unfolding run fin exec native_exchange_trace mid_def tail_def by simp
  moreover have "CreateSession so (Inr sid) \<in> set ?pre" by simp
  moreover have "\<forall>e \<in> set ?pre. \<not> is_send e \<and> \<not> is_deactivate e \<and> origin_of e \<noteq> Failure"
    using P by (auto elim!: is_deactivate.elims is_send.elims)
  moreover have "\<forall>e \<in> set (tail @ post). \<not> is_send e \<and> \<not> is_deactivate e"
    using tail post by (auto elim!: is_deactivate.elims is_send.elims)
  moreover have "\<forall>err. sendMessage m sid task = Inl err \<longrightarrow> snd (runCommand task opts w) = Exit 1"
  proof (intro allI impI)
    fix err assume "sendMessage m sid task = Inl err"
    then obtain e where "snd (native_exchange task opts m sid) = Throw e"
      using native_exchange_throws by blast
    then have "snd (execute_task ?eng task opts w caps tools) = Throw e"
      by (simp add: exchange)
    then show "snd (runCommand task opts w) = Exit 1"
      by (simp add: completion finish_throws)
  qed
  ultimately show ?thesis using mid by blast
qed

lemma example_native_created:
  "CreateSession (native_options example_world [(''PlaywrightBrowser'', example_tool)]) (Inr ''s1'')
     \<in> set (fst (runCommand ''build'' \<lparr>engine = Some ''native'', verbose = False\<rparr> example_world))"
  by (simp add: runCommand_def validate_engine_def effective_engine_def proc_defs
       run_stages_def load_tools_def execute_task_def native_engine_def native_exchange_def
       import_cortex_def import_loader_def example_defs native_options_def report_def
       print_if_def tools_used_def top_level_handler_def)

lemma failing_native_created:
  "CreateSession (native_options failing_message_world [(''PlaywrightBrowser'', example_tool)])
       (Inr ''s1'')
     \<in> set (fst (runCommand ''build'' \<lparr>engine = Some ''native'', verbose = False\<rparr>
          failing_message_world))"
  by (simp add: runCommand_def validate_engine_def effective_engine_def proc_defs
       run_stages_def load_tools_def execute_task_def native_engine_def native_exchange_def
       import_cortex_def import_loader_def example_defs failing_message_world_def
       native_options_def report_def print_if_def tools_used_def top_level_handler_def)

lemma failing_native_send:
  "SendMessage ''s1'' ''build'' (Inl (Error ''network unreachable''))
     \<in> set (fst (runCommand ''build'' \<lparr>engine = Some ''native'', verbose = False\<rparr>
          failing_message_world))"
  by (simp add: runCommand_def validate_engine_def effective_engine_def proc_defs
       run_stages_def load_tools_def execute_task_def native_engine_def native_exchange_def
       import_cortex_def import_loader_def example_defs failing_message_world_def
       native_options_def report_def print_if_def tools_used_def top_level_handler_def)

theorem native_session_deactivated_witness:
  "CreateSession (native_options example_world [(''PlaywrightBrowser'', example_tool)]) (Inr ''s1'')
     \<in> set (fst (runCommand ''build'' \<lparr>engine = Some ''native'', verbose = False\<rparr> example_world))
   \<and> (\<exists>pre r mid d post.
         fst (runCommand ''build'' \<lparr>engine = Some ''native'', verbose = False\<rparr> example_world)
           = pre @ SendMessage ''s1'' ''build'' r # mid @ DeactivateSession ''s1'' d # post
       \<and> CreateSession (native_options example_world [(''PlaywrightBrowser'', example_tool)])
            (Inr ''s1'') \<in> set pre
       \<and> (\<forall>e \<in> set pre. \<not> is_send e \<and> \<not> is_deactivate e \<and> origin_of e \<noteq> Failure)
       \<and> (\<forall>e \<in> set mid. origin_of e = Console)
       \<and> (\<forall>e \<in> set post. \<not> is_send e \<and> \<not> is_deactivate e))
   \<and> CreateSession (native_options failing_message_world [(''PlaywrightBrowser'', example_tool)])
       (Inr ''s1'')
     \<in> set (fst (runCommand ''build'' \<lparr>engine = Some ''native'', verbose = False\<rparr>
          failing_message_world))
   \<and> SendMessage ''s1'' ''build'' (Inl (Error ''network unreachable''))
     \<in> set (fst (runCommand ''build'' \<lparr>engine = Some ''native'', verbose = False\<rparr>
          failing_message_world))
   \<and> (\<exists>pre mid d post.
         fst (runCommand ''build'' \<lparr>engine = Some ''native'', verbose = False\<rparr>
               failing_message_world)
           = pre @ SendMessage ''s1'' ''build'' (Inl (Error ''network unreachable'')) # mid
             @ DeactivateSession ''s1'' d # post
       \<and> (\<forall>e \<in> set pre. \<not> is_send e \<and> \<not> is_deactivate e \<and> origin_of e \<noteq> Failure)
       \<and> (\<forall>e \<in> set mid. origin_of e = Console)
       \<and> (\<forall>e \<in> set post. \<not> is_send e \<and> \<not> is_deactivate e))
   \<and> snd (runCommand ''build'' \<lparr>engine = Some ''native'', verbose = False\<rparr>
          failing_message_world) = Exit 1"
proof -
  let ?o = "\<lparr>engine = Some ''native'', verbose = False\<rparr>"
  let ?t = "fst (runCommand ''build'' ?o failing_message_world)"
  obtain pre r mid d post where
    split: "?t = pre @ SendMessage ''s1'' ''build'' r # mid @ DeactivateSession ''s1'' d # post"
    and pre: "\<forall>e \<in> set pre. \<not> is_send e \<and> \<not> is_deactivate e \<and> origin_of e \<noteq> Failure"
    and mid: "\<forall>e \<in> set mid. origin_of e = Console"
    and post: "\<forall>e \<in> set post. \<not> is_send e \<and> \<not> is_deactivate e"
    and exit: "\<forall>err. r = Inl err \<longrightarrow> snd (runCommand ''build'' ?o failing_message_world) = Exit 1"
    using native_session_deactivated [OF failing_native_created] by blast
  have "SendMessage ''s1'' ''build'' (Inl (Error ''network unreachable''))
      \<in> set (pre @ SendMessage ''s1'' ''build'' r # mid @ DeactivateSession ''s1'' d # post)"
    using failing_native_send by (simp only: split)
  then have r: "r = Inl (Error ''network unreachable'')"
    using pre mid post by (auto elim!: is_send.elims)
  have second: "\<exists>pre mid d post. ?t
           = pre @ SendMessage ''s1'' ''build'' (Inl (Error ''network unreachable'')) # mid
             @ DeactivateSession ''s1'' d # post
       \<and> (\<forall>e \<in> set pre. \<not> is_send e \<and> \<not> is_deactivate e \<and> origin_of e \<noteq> Failure)
       \<and> (\<forall>e \<in> set mid. origin_of e = Console)
       \<and> (\<forall>e \<in> set post. \<not> is_send e \<and> \<not> is_deactivate e)"
    using split pre mid post unfolding r by blast
  have exit1: "snd (runCommand ''build'' ?o failing_message_world) = Exit 1"
    using exit r by blast
  have first: "\<exists>pre r mid d post.
         fst (runCommand ''build'' ?o example_world)
           = pre @ SendMessage ''s1'' ''build'' r # mid @ DeactivateSession ''s1'' d # post
       \<and> CreateSession (native_options example_world [(''PlaywrightBrowser'', example_tool)])
            (Inr ''s1'') \<in> set pre
       \<and> (\<forall>e \<in> set pre. \<not> is_send e \<and> \<not> is_deactivate e \<and> origin_of e \<noteq> Failure)
       \<and> (\<forall>e \<in> set mid. origin_of e = Console)
       \<and> (\<forall>e \<in> set post. \<not> is_send e \<and> \<not> is_deactivate e)"
    using native_session_deactivated [OF example_native_created] by blast
  show ?thesis
    using example_native_created first failing_native_created failing_native_send second exit1
    by blast
qed

subsection \<open>The session manager of a runtime installed as the package\<close>

text \<open>
  When the local module does not load, the session manager is never taken from the
  package: the fallback assigns the agent, the session and the orchestrator only.
\<close>

lemma package_runtime_has_no_manager:
  "import_local_cortex w = Inl e \<Longrightarrow> snd (import_cortex w) = Normal caps \<Longrightarrow>
     NativeSessionManager caps = None"
  by (auto simp: import_cortex_def proc_defs split: sum.splits)

text \<open>
  Claim C3, evaluated where it fails. The runtime resolves through the package and the
  package exports a session manager, yet the run with the native engine ends with the
  report that the manager is not available and exit code 1: no session is created.
\<close>

theorem native_engine_with_package_runtime:
  "import_local_cortex package_world = Inl (Error ''Cannot find module'')
   \<and> import_package_cortex package_world = Inr example_module
   \<and> NativeSessionManager example_module = Some example_manager
   \<and> runCommand ''build'' \<lparr>engine = Some ''native'', verbose = False\<rparr> package_world =
     ([ConsoleLog (''Running Acrobi task: '' @ [dquote] @ ''build'' @ [dquote]),
       ConsoleLog ''Using engine: NATIVE'', ImportLocalCortex, ImportPackageCortex,
       ImportLocalLoader, ConsoleLog ''Initializing Cortex runtime...'',
       ConsoleLog ''Loading dynamic tools...'', InitializeTools ''/home/user/project'',
       ConsoleLog ''Using Native Engine with Anthropic SDK'',
       ConsoleError (newline # ''Error: NativeSessionManager not available - please ensure @acrobi/cortex is properly installed''),
       ProcessExit 1], Exit 1)"
  by (simp add: runCommand_def validate_engine_def effective_engine_def proc_defs
       run_stages_def load_tools_def execute_task_def native_engine_def top_level_handler_def
       import_cortex_def import_loader_def example_defs toUpperCase_def upper_char_def char_tables)

subsection \<open>The browser branch of the legacy agent\<close>

lemmas run_defs = LocalExecutorAgent_run_def run_body_def playwright_branch_def
  tool_execute_def tool_cleanup_def

lemma browser_run_success:
  assumes "browser_intent task" "map_of tools ''PlaywrightBrowser'' = Some t" "url_match task = Some url"
    "execute t (Goto (goto_url url)) = Inr nav" "tr_success nav" "execute t Title = Inr tit" "tr_success tit"
    "cleanup t = None \<or> cleanup t = Some (Inr ())"
  shows "LocalExecutorAgent_run task tools =
     ([AgentLog ''Starting local task execution...'', AgentLog ''Using Playwright browser tool...'',
       AgentLog (''Navigating to: '' @ url), ToolExecute (Goto (goto_url url)) (Inr nav),
       AgentLog ''Getting page title...'', ToolExecute Title (Inr tit)]
      @ (if cleanup t = None then [] else [ToolCleanup]) @ [AgentLog ''Task execution completed''],
      Normal \<lparr>success = True, message = Some (''Page title: '' @ js_string (tr_data tit)),
              title = tr_data tit, response = None, error = None, note_text = None\<rparr>)"
  using assms by (auto simp: run_defs proc_defs)

lemma browser_run_goto_fails:
  assumes "browser_intent task" "map_of tools ''PlaywrightBrowser'' = Some t" "url_match task = Some url"
    "execute t (Goto (goto_url url)) = Inr nav" "\<not> tr_success nav"
  shows "LocalExecutorAgent_run task tools =
     ([AgentLog ''Starting local task execution...'', AgentLog ''Using Playwright browser tool...'',
       AgentLog (''Navigating to: '' @ url), ToolExecute (Goto (goto_url url)) (Inr nav),
       AgentLog ''Task execution completed''],
      Normal (failure (tr_error nav)))"
  using assms by (auto simp: run_defs proc_defs)

lemma browser_run_title_fails:
  assumes "browser_intent task" "map_of tools ''PlaywrightBrowser'' = Some t" "url_match task = Some url"
    "execute t (Goto (goto_url url)) = Inr nav" "tr_success nav" "execute t Title = Inr tit" "\<not> tr_success tit"
  shows "LocalExecutorAgent_run task tools =
     ([AgentLog ''Starting local task execution...'', AgentLog ''Using Playwright browser tool...'',
       AgentLog (''Navigating to: '' @ url), ToolExecute (Goto (goto_url url)) (Inr nav),
       AgentLog ''Getting page title...'', ToolExecute Title (Inr tit),
       AgentLog ''Task execution completed''],
      Normal (failure (tr_error tit)))"
  using assms by (auto simp: run_defs proc_defs)

text \<open>
  Claim C7, as the code has it. The task has the browser intent, the registry holds the
  tool \<open>PlaywrightBrowser\<close> and the pattern extracts a target. When \<open>goto\<close> and \<open>title\<close>
  both answer with success and the cleanup hook, if the tool has one, returns, the agent
  returns a success whose title is the data of the \<open>title\<close> answer and whose message is
  \<open>Page title: \<close> followed by it. When \<open>goto\<close> answers with a failure, the result is
  the failure with that answer's error, and neither \<open>title\<close> nor the cleanup hook is
  called; when \<open>title\<close> answers with a failure, the result is the failure with its error
  and the cleanup hook is not called.
\<close>

theorem browser_title_result:
  assumes "browser_intent task" and "map_of tools ''PlaywrightBrowser'' = Some t"
    and "url_match task = Some url"
  shows "(\<forall>nav tit. execute t (Goto (goto_url url)) = Inr nav \<and> tr_success nav
            \<and> execute t Title = Inr tit \<and> tr_success tit
            \<and> (cleanup t = None \<or> cleanup t = Some (Inr ())) \<longrightarrow>
          LocalExecutorAgent_run task tools =
            ([AgentLog ''Starting local task execution...'',
              AgentLog ''Using Playwright browser tool...'',
              AgentLog (''Navigating to: '' @ url),
              ToolExecute (Goto (goto_url url)) (Inr nav),
              AgentLog ''Getting page title...'', ToolExecute Title (Inr tit)]
             @ (if cleanup t = None then [] else [ToolCleanup])
             @ [AgentLog ''Task execution completed''],
             Normal \<lparr>success = True,
                     message = Some (''Page title: '' @ js_string (tr_data tit)),
                     title = tr_data tit, response = None, error = None, note_text = None\<rparr>))
    \<and> (\<forall>nav. execute t (Goto (goto_url url)) = Inr nav \<and> \<not> tr_success nav \<longrightarrow>
          LocalExecutorAgent_run task tools =
            ([AgentLog ''Starting local task execution...'',
              AgentLog ''Using Playwright browser tool...'',
              AgentLog (''Navigating to: '' @ url),
              ToolExecute (Goto (goto_url url)) (Inr nav),
              AgentLog ''Task execution completed''],
             Normal (failure (tr_error nav))))
    \<and> (\<forall>nav tit. execute t (Goto (goto_url url)) = Inr nav \<and> tr_success nav
            \<and> execute t Title = Inr tit \<and> \<not> tr_success tit \<longrightarrow>
          LocalExecutorAgent_run task tools =
            ([AgentLog ''Starting local task execution...'',
              AgentLog ''Using Playwright browser tool...'',
              AgentLog (''Navigating to: '' @ url),
              ToolExecute (Goto (goto_url url)) (Inr nav),
              AgentLog ''Getting page title...'', ToolExecute Title (Inr tit),
              AgentLog ''Task execution completed''],
             Normal (failure (tr_error tit))))"
  using browser_run_success [OF assms] browser_run_goto_fails [OF assms]
    browser_run_title_fails [OF assms]
  by blast

lemma example_intent: "browser_intent ''title of example.com''"
  by (simp add: browser_intent_def toLowerCase_def lower_char_def char_tables)

lemma example_match: "url_match ''title of example.com'' = Some ''example.com''"
  by code_simp

theorem browser_title_result_witness:
  "browser_intent ''title of example.com''
   \<and> map_of [(''PlaywrightBrowser'', example_tool)] ''PlaywrightBrowser'' = Some example_tool
   \<and> url_match ''title of example.com'' = Some ''example.com''
   \<and> LocalExecutorAgent_run ''title of example.com'' [(''PlaywrightBrowser'', example_tool)] =
        ([AgentLog ''Starting local task execution...'',
          AgentLog ''Using Playwright browser tool...'',
          AgentLog ''Navigating to: example.com'',
          ToolExecute (Goto ''https://example.com'')
            (Inr \<lparr>tr_success = True, tr_data = None, tr_error = None\<rparr>),
          AgentLog ''Getting page title...'',
          ToolExecute Title
            (Inr \<lparr>tr_success = True, tr_data = Some ''Example Domain'', tr_error = None\<rparr>),
          ToolCleanup, AgentLog ''Task execution completed''],
         Normal \<lparr>success = True, message = Some ''Page title: Example Domain'',
                 title = Some ''Example Domain'', response = None, error = None,
                 note_text = None\<rparr>)"
  using browser_title_result [of "''title of example.com''" "[(''PlaywrightBrowser'', example_tool)]"
      example_tool "''example.com''"] example_intent example_match
  by (simp add: example_tool_def goto_url_def startsWith_def)

text \<open>
  Claim C7 as stated fails for a tool whose \<open>goto\<close> and \<open>title\<close> succeed and whose
  cleanup hook throws: the agent throws and returns no result.
\<close>

theorem cleanup_throws_counterexample:
  "browser_intent ''title of example.com''
   \<and> url_match ''title of example.com'' = Some ''example.com''
   \<and> (\<exists>nav. execute example_tool (Goto ''https://example.com'') = Inr nav \<and> tr_success nav)
   \<and> (\<exists>tit. execute example_tool Title = Inr tit \<and> tr_success tit)
   \<and> snd (LocalExecutorAgent_run ''title of example.com''
        [(''PlaywrightBrowser'',
          example_tool\<lparr>cleanup := Some (Inl (Error ''browser has been closed''))\<rparr>)])
      = Throw (Error ''browser has been closed'')"
  using example_intent example_match
  by (simp add: run_defs proc_defs example_tool_def goto_url_def startsWith_def)

subsection \<open>The normalization invariant\<close>

lemma run_body_normalized:
  assumes "snd (run_body task tools) = Normal r"
    and "\<forall>t a. map_of tools ''PlaywrightBrowser'' = Some t \<longrightarrow> reports_errors t a"
  shows "normalized r"
  using assms
  apply (auto simp: run_defs proc_defs normalized_def failure_def reports_errors_def
      split: option.splits if_splits sum.splits completion.splits)
   apply blast+
  done

lemma legacy_engine_result:
  "snd (legacy_engine task caps tools) = Normal r \<Longrightarrow> snd (run_body task tools) = Normal r"
  by (auto simp: legacy_engine_def LocalExecutorAgent_run_def proc_defs
      split: option.splits if_splits sum.splits completion.splits)

lemma native_engine_normalized:
  "snd (native_engine task opts w caps tools) = Normal r \<Longrightarrow> normalized r"
  by (auto simp: native_engine_def native_exchange_def proc_defs normalized_def
      split: option.splits if_splits sum.splits completion.splits)

text \<open>
  Claim C5, as the code has it. Every result that an engine returns satisfies the
  normalization invariant, provided that on the legacy path the browser tool answers
  every failure with an error value: the agent copies the tool's \<open>error\<close> field into the
  result as it is. The native engine needs no such proviso.
\<close>

theorem results_normalized:
  assumes "snd (execute_task eng task opts w caps tools) = Normal r"
    and "eng = ''native'' \<or>
         (\<forall>t a. map_of tools ''PlaywrightBrowser'' = Some t \<longrightarrow> reports_errors t a)"
  shows "normalized r"
  using assms native_engine_normalized [of task opts w caps tools r]
    run_body_normalized [of task tools r] legacy_engine_result [of task caps tools r]
  by (auto simp: execute_task_def split: if_splits)

lemma example_reports_errors: "reports_errors example_tool a"
  by (cases a) (simp_all add: reports_errors_def example_tool_def)

theorem results_normalized_witness:
  "snd (execute_task ''legacy'' ''title of example.com'' \<lparr>engine = None, verbose = False\<rparr>
          example_world example_module [(''PlaywrightBrowser'', example_tool)])
     = Normal \<lparr>success = True, message = Some ''Page title: Example Domain'',
                 title = Some ''Example Domain'', response = None, error = None,
                 note_text = None\<rparr>
   \<and> map_of [(''PlaywrightBrowser'', example_tool)] ''PlaywrightBrowser'' = Some example_tool
   \<and> (\<forall>a. reports_errors example_tool a)
   \<and> normalized \<lparr>success = True, message = Some ''Page title: Example Domain'',
                 title = Some ''Example Domain'', response = None, error = None,
                 note_text = None\<rparr>"
proof -
  have r: "snd (execute_task ''legacy'' ''title of example.com'' \<lparr>engine = None, verbose = False\<rparr>
          example_world example_module [(''PlaywrightBrowser'', example_tool)])
     = Normal \<lparr>success = True, message = Some ''Page title: Example Domain'',
                 title = Some ''Example Domain'', response = None, error = None,
                 note_text = None\<rparr>"
    using example_intent example_match
    by (simp add: execute_task_def legacy_engine_def run_defs proc_defs example_module_def
          example_tool_def goto_url_def startsWith_def)
  have e: "\<forall>t a. map_of [(''PlaywrightBrowser'', example_tool)] ''PlaywrightBrowser'' = Some t
          \<longrightarrow> reports_errors t a"
    by (simp add: example_reports_errors)
  have m: "map_of [(''PlaywrightBrowser'', example_tool)] ''PlaywrightBrowser'' = Some example_tool"
    by simp
  have a: "\<forall>a. reports_errors example_tool a"
    by (simp add: example_reports_errors)
  show ?thesis using r m a results_normalized [OF r disjI2, OF e] by blast
qed

text \<open>
  Claim C5 as stated fails when the tool answers \<open>goto\<close> with \<open>{ success: false }\<close> and
  no error: the legacy engine returns a failure whose error is \<open>undefined\<close>.
\<close>

theorem failure_without_error_counterexample:
  "snd (execute_task ''legacy'' ''title of example.com'' \<lparr>engine = None, verbose = False\<rparr>
          example_world example_module
          [(''PlaywrightBrowser'', example_tool\<lparr>execute :=
              (\<lambda>a. Inr \<lparr>tr_success = False, tr_data = None, tr_error = None\<rparr>)\<rparr>)])
     = Normal \<lparr>success = False, message = None, title = None, response = None,
                error = None, note_text = None\<rparr>
   \<and> \<not> normalized \<lparr>success = False, message = None, title = None, response = None,
                error = None, note_text = None\<rparr>"
  using example_intent example_match
  by (simp add: execute_task_def legacy_engine_def run_defs proc_defs example_module_def
        example_tool_def goto_url_def startsWith_def failure_def normalized_def)

subsection \<open>The address handed to the browser tool\<close>

text \<open>
  On the browser path with an extracted target, the first request to the tool is
  \<open>goto\<close>; its address is the target itself when the target starts with the four
  letters \<open>http\<close>, and the target with \<open>https://\<close> put in front of it otherwise.
\<close>

lemma goto_request:
  assumes "browser_intent task" and "map_of tools ''PlaywrightBrowser'' = Some t"
    and "url_match task = Some url"
  shows "\<exists>rest. fst (LocalExecutorAgent_run task tools) =
      [AgentLog ''Starting local task execution...'',
       AgentLog ''Using Playwright browser tool...'',
       AgentLog (''Navigating to: '' @ url),
       ToolExecute (Goto (if prefix ''http'' url then url else ''https://'' @ url))
         (execute t (Goto (if prefix ''http'' url then url else ''https://'' @ url)))] @ rest"
  using assms
  by (auto simp: run_defs proc_defs goto_url_def startsWith_def
      split: option.splits if_splits sum.splits completion.splits)

lemma ftp_match: "url_match ''title of ftp://example.com'' = Some ''ftp://example.com''"
  by code_simp

lemma httpbin_match: "url_match ''browser: visit httpbin.org'' = Some ''httpbin.org''"
  by code_simp

text \<open>
  Claim C8, evaluated where the code misses it. The guard of the source tests the four
  letters \<open>http\<close>, not the presence of a scheme. The target \<open>ftp://example.com\<close>
  carries a scheme and is not passed unchanged: the request goes out for
  \<open>https://ftp://example.com\<close>. The target \<open>httpbin.org\<close> carries no scheme and gets no
  prefix: the request goes out for \<open>httpbin.org\<close>, which is no absolute address.
\<close>

theorem scheme_guard_misses:
  "carries_scheme ''ftp://example.com''
   \<and> browser_intent ''title of ftp://example.com''
   \<and> url_match ''title of ftp://example.com'' = Some ''ftp://example.com''
   \<and> fst (LocalExecutorAgent_run ''title of ftp://example.com''
          [(''PlaywrightBrowser'', example_tool)]) ! 3
        = ToolExecute (Goto ''https://ftp://example.com'')
            (Inr \<lparr>tr_success = True, tr_data = None, tr_error = None\<rparr>)
   \<and> \<not> carries_scheme ''httpbin.org''
   \<and> browser_intent ''browser: visit httpbin.org''
   \<and> url_match ''browser: visit httpbin.org'' = Some ''httpbin.org''
   \<and> fst (LocalExecutorAgent_run ''browser: visit httpbin.org''
          [(''PlaywrightBrowser'', example_tool)]) ! 3
        = ToolExecute (Goto ''httpbin.org'')
            (Inr \<lparr>tr_success = True, tr_data = None, tr_error = None\<rparr>)"
proof -
  have i1: "browser_intent ''title of ftp://example.com''"
    by (simp add: browser_intent_def toLowerCase_def lower_char_def char_tables)
  have i2: "browser_intent ''browser: visit httpbin.org''"
    by (simp add: browser_intent_def toLowerCase_def lower_char_def char_tables)
  have s1: "carries_scheme ''ftp://example.com''"
    by (simp add: carries_scheme_def is_alpha_def is_scheme_char_def char_tables)
  have s2: "\<not> carries_scheme ''httpbin.org''"
    by (simp add: carries_scheme_def is_alpha_def is_scheme_char_def char_tables)
  show ?thesis
    using i1 i2 s1 s2 ftp_match httpbin_match
    by (simp add: run_defs proc_defs example_tool_def goto_url_def startsWith_def)
qed

subsection \<open>Tool discovery\<close>

lemma import_loader_unavailable:
  "import_local_loader w = Inl e1 \<Longrightarrow> import_package_loader w = Inl e2 \<Longrightarrow>
     import_loader w = ([ImportLocalLoader, ImportPackageLoader,
        ConsoleWarn ''Dynamic tool loading not available''], Normal None)"
  by (simp add: import_loader_def proc_defs)

lemma loader_unavailable:
  assumes "effective_engine opts \<in> {''legacy'', ''native''}"
    and "snd (import_cortex w) = Normal caps"
    and "import_local_loader w = Inl e1" and "import_package_loader w = Inl e2"
  shows "runCommand task opts w =
           ([ConsoleLog (''Running Acrobi task: '' @ [dquote] @ task @ [dquote]),
             ConsoleLog (''Using engine: '' @ toUpperCase (effective_engine opts))]
            @ fst (import_cortex w)
            @ [ImportLocalLoader, ImportPackageLoader,
               ConsoleWarn ''Dynamic tool loading not available'',
               ConsoleLog ''Initializing Cortex runtime...'']
            @ fst (finish (effective_engine opts) task opts w caps []),
            snd (finish (effective_engine opts) task opts w caps []))"
  using runCommand_reach [OF assms(1,2), of None "[]" task]
    import_loader_unavailable [OF assms(3,4)]
  by (simp add: load_tools_def ret_def)

lemma loader_throws:
  assumes "effective_engine opts \<in> {''legacy'', ''native''}"
    and "snd (import_cortex w) = Normal caps"
    and "snd (import_loader w) = Normal (Some (Inl e))"
  shows "runCommand task opts w =
           ([ConsoleLog (''Running Acrobi task: '' @ [dquote] @ task @ [dquote]),
             ConsoleLog (''Using engine: '' @ toUpperCase (effective_engine opts))]
            @ fst (import_cortex w) @ fst (import_loader w)
            @ [ConsoleLog ''Initializing Cortex runtime...'',
               ConsoleLog ''Loading dynamic tools...'', InitializeTools (cwd w)]
            @ fst (top_level_handler opts e), Exit 1)"
  using assms top_level_handler_exit [of opts e]
  by (simp add: runCommand_def validate_engine_def run_stages_def load_tools_def
        seq_def try_catch_def console_log_def emit_def ret_def call_def)

text \<open>
  Claim C4, as the code has it. The engine is valid and the runtime has resolved. When
  the tool loader loads from neither place, the run warns and goes on: it is the rest of
  the command run with the empty registry, and it ends as that rest ends. When a loader
  was found and throws as it is run, the error reaches the top-level handler and the
  process exits with code 1: no engine is started.
\<close>

theorem loader_failure:
  assumes "effective_engine opts \<in> {''legacy'', ''native''}"
    and "snd (import_cortex w) = Normal caps"
  shows "(\<forall>e1 e2. import_local_loader w = Inl e1 \<and> import_package_loader w = Inl e2 \<longrightarrow>
           runCommand task opts w =
           ([ConsoleLog (''Running Acrobi task: '' @ [dquote] @ task @ [dquote]),
             ConsoleLog (''Using engine: '' @ toUpperCase (effective_engine opts))]
            @ fst (import_cortex w)
            @ [ImportLocalLoader, ImportPackageLoader,
               ConsoleWarn ''Dynamic tool loading not available'',
               ConsoleLog ''Initializing Cortex runtime...'']
            @ fst (finish (effective_engine opts) task opts w caps []),
            snd (finish (effective_engine opts) task opts w caps [])))
    \<and> (\<forall>e. snd (import_loader w) = Normal (Some (Inl e)) \<longrightarrow>
           runCommand task opts w =
           ([ConsoleLog (''Running Acrobi task: '' @ [dquote] @ task @ [dquote]),
             ConsoleLog (''Using engine: '' @ toUpperCase (effective_engine opts))]
            @ fst (import_cortex w) @ fst (import_loader w)
            @ [ConsoleLog ''Initializing Cortex runtime...'',
               ConsoleLog ''Loading dynamic tools...'', InitializeTools (cwd w)]
            @ fst (top_level_handler opts e), Exit 1))"
  using loader_unavailable [OF assms] loader_throws [OF assms] by blast

lemma example_cortex: "import_cortex example_world = ([ImportLocalCortex], Normal example_module)"
  by (simp add: import_cortex_def proc_defs example_world_def example_module_def)

theorem loader_failure_witness:
  "effective_engine \<lparr>engine = None, verbose = False\<rparr> \<in> {''legacy'', ''native''}
   \<and> snd (import_cortex no_loader_world) = Normal example_module
   \<and> import_local_loader no_loader_world = Inl (Error ''Cannot find module'')
   \<and> import_package_loader no_loader_world = Inl (Error ''Cannot find package'')
   \<and> runCommand ''build'' \<lparr>engine = None, verbose = False\<rparr> no_loader_world =
       ([ConsoleLog (''Running Acrobi task: '' @ [dquote] @ ''build'' @ [dquote]),
         ConsoleLog ''Using engine: LEGACY'', ImportLocalCortex,
         ImportLocalLoader, ImportPackageLoader,
         ConsoleWarn ''Dynamic tool loading not available'',
         ConsoleLog ''Initializing Cortex runtime...'']
        @ fst (finish ''legacy'' ''build'' \<lparr>engine = None, verbose = False\<rparr> no_loader_world
                 example_module []),
        snd (finish ''legacy'' ''build'' \<lparr>engine = None, verbose = False\<rparr> no_loader_world
                 example_module []))
   \<and> snd (import_cortex failing_loader_world) = Normal example_module
   \<and> snd (import_loader failing_loader_world)
        = Normal (Some (Inl (Error ''EACCES: permission denied'')))
   \<and> runCommand ''build'' \<lparr>engine = None, verbose = False\<rparr> failing_loader_world =
       ([ConsoleLog (''Running Acrobi task: '' @ [dquote] @ ''build'' @ [dquote]),
         ConsoleLog ''Using engine: LEGACY'', ImportLocalCortex, ImportLocalLoader,
         ConsoleLog ''Initializing Cortex runtime...'',
         ConsoleLog ''Loading dynamic tools...'', InitializeTools ''/home/user/project'',
         ConsoleError (newline # ''Error: EACCES: permission denied''), ProcessExit 1], Exit 1)"
proof -
  let ?o = "\<lparr>engine = None, verbose = False\<rparr>"
  have v: "effective_engine ?o \<in> {''legacy'', ''native''}"
    by (simp add: effective_engine_def)
  have c1: "snd (import_cortex no_loader_world) = Normal example_module"
    by (simp add: import_cortex_def proc_defs no_loader_world_def example_world_def example_module_def)
  have c2: "snd (import_cortex failing_loader_world) = Normal example_module"
    by (simp add: import_cortex_def proc_defs failing_loader_world_def example_world_def example_module_def)
  have f1: "fst (import_cortex no_loader_world) = [ImportLocalCortex]"
    by (simp add: import_cortex_def proc_defs no_loader_world_def example_world_def)
  have f2: "fst (import_cortex failing_loader_world) = [ImportLocalCortex]"
    by (simp add: import_cortex_def proc_defs failing_loader_world_def example_world_def)
  have l1: "import_local_loader no_loader_world = Inl (Error ''Cannot find module'')"
    by (simp add: no_loader_world_def)
  have l2: "import_package_loader no_loader_world = Inl (Error ''Cannot find package'')"
    by (simp add: no_loader_world_def example_world_def)
  have l3: "import_loader failing_loader_world
        = ([ImportLocalLoader], Normal (Some (Inl (Error ''EACCES: permission denied''))))"
    by (simp add: import_loader_def proc_defs failing_loader_world_def)
  have u: "toUpperCase ''legacy'' = ''LEGACY''"
    by (simp add: toUpperCase_def upper_char_def char_tables)
  have d: "cwd failing_loader_world = ''/home/user/project''"
    by (simp add: failing_loader_world_def example_world_def)
  have e: "effective_engine ?o = ''legacy''" by (simp add: effective_engine_def)
  show ?thesis
    using loader_failure [OF v c1, of "''build''"] loader_failure [OF v c2, of "''build''"]
      v c1 c2 l1 l2 l3
    by (simp add: f1 f2 u d e top_level_handler_def proc_defs)
qed

text \<open>
  Claim C4 as stated fails when the loader is found and its execution throws: the run
  ends with the error report and exit code 1.
\<close>

theorem loader_throws_counterexample:
  "import_local_loader failing_loader_world
     = Inr \<lparr>initializeTools = Some (Inl (Error ''EACCES: permission denied''))\<rparr>
   \<and> runCommand ''build'' \<lparr>engine = None, verbose = False\<rparr> failing_loader_world =
       ([ConsoleLog (''Running Acrobi task: '' @ [dquote] @ ''build'' @ [dquote]),
         ConsoleLog ''Using engine: LEGACY'', ImportLocalCortex, ImportLocalLoader,
         ConsoleLog ''Initializing Cortex runtime...'',
         ConsoleLog ''Loading dynamic tools...'', InitializeTools ''/home/user/project'',
         ConsoleError (newline # ''Error: EACCES: permission denied''), ProcessExit 1], Exit 1)"
  by (simp add: runCommand_def validate_engine_def effective_engine_def proc_defs
       run_stages_def load_tools_def top_level_handler_def
       import_cortex_def import_loader_def example_defs failing_loader_world_def
       toUpperCase_def upper_char_def char_tables)

subsection \<open>Cleanup of the legacy agent\<close>

lemma run_not_exit: "snd (LocalExecutorAgent_run task tools) \<noteq> Exit n"
  by (auto simp: run_defs proc_defs
      split: option.splits if_splits sum.splits completion.splits)

lemma legacy_engine_trace:
  assumes "Session caps = Some (Inr ())" and "Agent caps = Some agent"
    and "agent_construct agent = Inr ()"
  shows "fst (legacy_engine task caps tools) =
      [ConsoleLog ''Using Legacy Engine'', NewSession,
       ConsoleLog ''Creating local executor agent...'', NewAgent,
       ConsoleLog ''Executing task...'']
      @ fst (LocalExecutorAgent_run task tools)
      @ (case snd (LocalExecutorAgent_run task tools) of Normal r \<Rightarrow> [AgentCleanup] | _ \<Rightarrow> [])"
    and "snd (legacy_engine task caps tools) =
      (case snd (LocalExecutorAgent_run task tools) of
         Normal r \<Rightarrow> (case agent_cleanup agent of Inl e \<Rightarrow> Throw e | Inr u \<Rightarrow> Normal r)
       | Throw e \<Rightarrow> Throw e | Exit n \<Rightarrow> Exit n)"
  using assms
  by (auto simp: legacy_engine_def proc_defs split: completion.splits sum.splits)


lemma origin_not_legacy: "origin_of e \<noteq> Legacy \<Longrightarrow> e \<noteq> AgentCleanup"
  by auto

lemma run_no_cleanup: "AgentCleanup \<notin> set (fst (LocalExecutorAgent_run task tools))"
  using from_origins_run [of "{Run}" task tools] by (force simp: from_origins_def)

lemma report_no_cleanup: "AgentCleanup \<notin> set (fst (report w r))"
  using from_origins_report [of "{Console, Failure}" w r] by (force simp: from_origins_def)

lemma handler_no_cleanup: "AgentCleanup \<notin> set (fst (top_level_handler opts e))"
  using from_origins_handler [of "{Failure}" opts e] by (force simp: from_origins_def)

lemma finish_legacy_returns:
  assumes "Session caps = Some (Inr ())" and "Agent caps = Some agent"
    and "agent_construct agent = Inr ()"
    and "snd (LocalExecutorAgent_run task tools) = Normal r"
  shows "\<exists>post. fst (finish ''legacy'' task opts w caps tools) =
      [ConsoleLog ''Using Legacy Engine'', NewSession,
       ConsoleLog ''Creating local executor agent...'', NewAgent,
       ConsoleLog ''Executing task...'']
      @ fst (LocalExecutorAgent_run task tools) @ AgentCleanup # post
      \<and> AgentCleanup \<notin> set post"
proof -
  obtain post where p: "fst (finish ''legacy'' task opts w caps tools)
       = fst (execute_task ''legacy'' task opts w caps tools) @ post"
    and o: "\<forall>e \<in> set post. origin_of e \<in> {Console, Failure}"
    using finish_split by blast
  have "AgentCleanup \<notin> set post" using o by force
  then show ?thesis
    using p legacy_engine_trace(1) [OF assms(1-3), of task tools] assms(4)
    by (simp add: execute_task_def)
qed

lemma finish_legacy_throws:
  assumes "Session caps = Some (Inr ())" and "Agent caps = Some agent"
    and "agent_construct agent = Inr ()"
    and "snd (LocalExecutorAgent_run task tools) = Throw e"
  shows "finish ''legacy'' task opts w caps tools =
      ([ConsoleLog ''Using Legacy Engine'', NewSession,
        ConsoleLog ''Creating local executor agent...'', NewAgent,
        ConsoleLog ''Executing task...'']
       @ fst (LocalExecutorAgent_run task tools) @ fst (top_level_handler opts e), Exit 1)"
  using legacy_engine_trace [OF assms(1-3), of task tools] assms(4)
    top_level_handler_exit [of opts e]
  by (simp add: finish_def execute_task_def seq_def try_catch_def)

text \<open>
  Claim C6. The engine is \<open>legacy\<close> and the run reaches the agent's \<open>run\<close> step: the
  runtime and the tools have loaded, the session and the agent have been constructed.
  When \<open>run\<close> returns a result, success or failure, the next event is the one call of
  \<open>cleanup\<close>. When \<open>run\<close> throws, what follows its events is the top-level handler:
  the trace holds no call of \<open>cleanup\<close> and the process exits with code 1.
\<close>

theorem legacy_cleanup:
  assumes eng: "effective_engine opts = ''legacy''"
    and caps: "snd (import_cortex w) = Normal caps"
    and init: "snd (import_loader w) = Normal init"
    and tools: "snd (load_tools opts w init) = Normal tools"
    and session: "Session caps = Some (Inr ())"
    and agent: "Agent caps = Some agent"
    and constructed: "agent_construct agent = Inr ()"
  shows "(\<forall>r. snd (LocalExecutorAgent_run task tools) = Normal r \<longrightarrow>
           (\<exists>pre post. fst (runCommand task opts w)
                = pre @ fst (LocalExecutorAgent_run task tools) @ AgentCleanup # post
              \<and> AgentCleanup \<notin> set pre
              \<and> AgentCleanup \<notin> set (fst (LocalExecutorAgent_run task tools))
              \<and> AgentCleanup \<notin> set post))
    \<and> (\<forall>e. snd (LocalExecutorAgent_run task tools) = Throw e \<longrightarrow>
           (\<exists>pre. fst (runCommand task opts w)
                = pre @ fst (LocalExecutorAgent_run task tools) @ fst (top_level_handler opts e))
           \<and> AgentCleanup \<notin> set (fst (runCommand task opts w))
           \<and> snd (runCommand task opts w) = Exit 1)"
proof -
  define P where "P = [ConsoleLog (''Running Acrobi task: '' @ [dquote] @ task @ [dquote]),
       ConsoleLog (''Using engine: '' @ toUpperCase (effective_engine opts))]
      @ fst (import_cortex w) @ fst (import_loader w)
      @ ConsoleLog ''Initializing Cortex runtime...'' # fst (load_tools opts w init)"
  define L where "L = [ConsoleLog ''Using Legacy Engine'', NewSession,
       ConsoleLog ''Creating local executor agent...'', NewAgent,
       ConsoleLog ''Executing task...'']"
  have valid: "effective_engine opts \<in> {''legacy'', ''native''}" using eng by simp
  have P: "AgentCleanup \<notin> set P"
    using setup_origins [OF caps, of _ _ _ opts init] unfolding P_def by force
  have L: "AgentCleanup \<notin> set L" by (simp add: L_def)
  have run: "runCommand task opts w = (P @ fst (finish ''legacy'' task opts w caps tools),
      snd (finish ''legacy'' task opts w caps tools))"
    using runCommand_reach [OF valid caps init tools, of task] eng by (simp add: P_def)
  have returns: "\<exists>pre post. fst (runCommand task opts w)
                = pre @ fst (LocalExecutorAgent_run task tools) @ AgentCleanup # post
              \<and> AgentCleanup \<notin> set pre
              \<and> AgentCleanup \<notin> set (fst (LocalExecutorAgent_run task tools))
              \<and> AgentCleanup \<notin> set post"
    if returned: "snd (LocalExecutorAgent_run task tools) = Normal r" for r
  proof -
    obtain post where "fst (finish ''legacy'' task opts w caps tools) =
        L @ fst (LocalExecutorAgent_run task tools) @ AgentCleanup # post"
      and post: "AgentCleanup \<notin> set post"
      using finish_legacy_returns [OF session agent constructed returned, of opts w] unfolding L_def by blast
    then have "fst (runCommand task opts w)
        = (P @ L) @ fst (LocalExecutorAgent_run task tools) @ AgentCleanup # post"
      by (simp add: run)
    moreover have "AgentCleanup \<notin> set (P @ L)" using P L by simp
    ultimately show ?thesis using post run_no_cleanup [of task tools] by blast
  qed
  have throws: "(\<exists>pre. fst (runCommand task opts w)
                = pre @ fst (LocalExecutorAgent_run task tools) @ fst (top_level_handler opts e))
           \<and> AgentCleanup \<notin> set (fst (runCommand task opts w))
           \<and> snd (runCommand task opts w) = Exit 1"
    if thrown: "snd (LocalExecutorAgent_run task tools) = Throw e" for e
  proof -
    have f: "finish ''legacy'' task opts w caps tools =
        (L @ fst (LocalExecutorAgent_run task tools) @ fst (top_level_handler opts e), Exit 1)"
      using finish_legacy_throws [OF session agent constructed thrown, of opts w] unfolding L_def .
    have "fst (runCommand task opts w)
        = (P @ L) @ fst (LocalExecutorAgent_run task tools) @ fst (top_level_handler opts e)"
      by (simp add: run f)
    moreover have "AgentCleanup \<notin> set (fst (runCommand task opts w))"
      using P L run_no_cleanup [of task tools] handler_no_cleanup [of opts e]
      by (simp add: run f)
    moreover have "snd (runCommand task opts w) = Exit 1" by (simp add: run f)
    ultimately show ?thesis by blast
  qed
  show ?thesis using returns throws by blast
qed

theorem legacy_cleanup_witness:
  "snd (LocalExecutorAgent_run ''build'' [(''PlaywrightBrowser'', example_tool)])
     = Normal \<lparr>success = True,
         message = Some (''Task '' @ [dquote] @ ''build'' @ [dquote]
                         @ '' completed successfully (simulated execution)''),
         title = None, response = None, error = None,
         note_text = Some
           ''This is a simulated result. For actual automation, install specific tool packages.''\<rparr>
   \<and> (\<exists>pre post. fst (runCommand ''build'' \<lparr>engine = None, verbose = False\<rparr> example_world)
          = pre @ fst (LocalExecutorAgent_run ''build'' [(''PlaywrightBrowser'', example_tool)])
            @ AgentCleanup # post
        \<and> AgentCleanup \<notin> set pre
        \<and> AgentCleanup \<notin> set (fst (LocalExecutorAgent_run ''build''
              [(''PlaywrightBrowser'', example_tool)]))
        \<and> AgentCleanup \<notin> set post)
   \<and> snd (LocalExecutorAgent_run ''title of example.com'' [(''PlaywrightBrowser'', crashing_tool)])
     = Throw (Error ''browser crashed'')
   \<and> AgentCleanup \<notin> set (fst (runCommand ''title of example.com''
        \<lparr>engine = None, verbose = False\<rparr> crashing_tool_world))
   \<and> snd (runCommand ''title of example.com''
        \<lparr>engine = None, verbose = False\<rparr> crashing_tool_world) = Exit 1"
proof -
  let ?o = "\<lparr>engine = None, verbose = False\<rparr>"
  let ?t1 = "[(''PlaywrightBrowser'', example_tool)]"
  let ?t2 = "[(''PlaywrightBrowser'', crashing_tool)]"
  have eng: "effective_engine ?o = ''legacy''" by (simp add: effective_engine_def)
  have c1: "snd (import_cortex example_world) = Normal example_module"
    by (simp add: example_cortex)
  have c2: "snd (import_cortex crashing_tool_world) = Normal example_module"
    by (simp add: import_cortex_def proc_defs crashing_tool_world_def example_world_def
          example_module_def)
  have i1: "snd (import_loader example_world) = Normal (Some (Inr ?t1))"
    by (simp add: import_loader_def proc_defs example_world_def)
  have i2: "snd (import_loader crashing_tool_world) = Normal (Some (Inr ?t2))"
    by (simp add: import_loader_def proc_defs crashing_tool_world_def)
  have l1: "snd (load_tools ?o example_world (Some (Inr ?t1))) = Normal ?t1"
    by (simp add: load_tools_def proc_defs)
  have l2: "snd (load_tools ?o crashing_tool_world (Some (Inr ?t2))) = Normal ?t2"
    by (simp add: load_tools_def proc_defs)
  have s: "Session example_module = Some (Inr ())"
    and a: "Agent example_module = Some \<lparr>agent_construct = Inr (), agent_cleanup = Inr ()\<rparr>"
    and k: "agent_construct \<lparr>agent_construct = Inr (), agent_cleanup = Inr ()\<rparr> = Inr ()"
    by (simp_all add: example_module_def)
  have r1: "snd (LocalExecutorAgent_run ''build'' ?t1)
     = Normal \<lparr>success = True,
         message = Some (''Task '' @ [dquote] @ ''build'' @ [dquote]
                         @ '' completed successfully (simulated execution)''),
         title = None, response = None, error = None,
         note_text = Some
           ''This is a simulated result. For actual automation, install specific tool packages.''\<rparr>"
    by (simp add: run_defs proc_defs browser_intent_def toLowerCase_def lower_char_def char_tables)
  have r2: "snd (LocalExecutorAgent_run ''title of example.com'' ?t2)
     = Throw (Error ''browser crashed'')"
    using example_intent example_match
    by (simp add: run_defs proc_defs crashing_tool_def)
  show ?thesis
    using r1 r2 legacy_cleanup [OF eng c1 i1 l1 s a k, of "''build''"]
      legacy_cleanup [OF eng c2 i2 l2 s a k, of "''title of example.com''"]
    by blast
qed

subsection \<open>The extracted target\<close>














lemma match_alternatives_Some:
  "match_alternatives ps s = Some t \<Longrightarrow>
     \<exists>p \<in> set ps. match_literal p s \<and> match_tail (drop (length p) s) = Some t"
proof (induction ps)
  case Nil
  then show ?case by simp
next
  case (Cons a ps)
  show ?case
  proof (cases "match_literal a s \<and> match_tail (drop (length a) s) \<noteq> None")
    case True
    with Cons.prems show ?thesis by auto
  next
    case False
    then have "match_alternatives (a # ps) s = match_alternatives ps s"
      by (cases "match_tail (drop (length a) s)") auto
    with Cons show ?thesis by auto
  qed
qed



































end
